theory Spec2Isabelle
  imports Main
begin

section \<open>JavaScript values\<close>

text \<open>
  The payload is the result of \<^verbatim>\<open>response.json()\<close> and is stored unvalidated
  (\<^verbatim>\<open>setErdData(data)\<close>). Its interface declares every identifier a \<^verbatim>\<open>number\<close>, yet the
  code passes \<^verbatim>\<open>table.workspace_id\<close> and \<^verbatim>\<open>table.database_id\<close> through \<^verbatim>\<open>Number(...)\<close>
  before each use and its debug handler prints their \<^verbatim>\<open>typeof\<close>. The identifiers that take
  part in a selection comparison are therefore JSON scalars here: a number or a string.
  Numbers are the integers (identifiers are integers) and \<^verbatim>\<open>NaN\<close>, which \<^verbatim>\<open>Number\<close> returns
  for text that is no numeral. Strings are lists of ASCII characters.
\<close>

datatype jsnum = NaN | Num int

datatype jsval = JNumber jsnum | JString string

text \<open>\<^verbatim>\<open>a === b\<close> on two numbers: \<^verbatim>\<open>NaN\<close> equals nothing, itself included.\<close>

definition num_strict_eq :: "jsnum \<Rightarrow> jsnum \<Rightarrow> bool" where
  "num_strict_eq a b = (a = b \<and> a \<noteq> NaN)"

text \<open>\<^verbatim>\<open>a === b\<close> on two values: no conversion, values of different types differ.\<close>

fun strict_eq :: "jsval \<Rightarrow> jsval \<Rightarrow> bool" where
  "strict_eq (JNumber a) (JNumber b) = num_strict_eq a b"
| "strict_eq (JString s) (JString t) = (s = t)"
| "strict_eq (JNumber a) (JString t) = False"
| "strict_eq (JString s) (JNumber b) = False"

text \<open>The condition of \<^verbatim>\<open>if (v)\<close>: \<^verbatim>\<open>0\<close>, \<^verbatim>\<open>NaN\<close> and the empty string are falsy.\<close>

fun truthy :: "jsval \<Rightarrow> bool" where
  "truthy (JNumber NaN) = False"
| "truthy (JNumber (Num n)) = (n \<noteq> 0)"
| "truthy (JString s) = (s \<noteq> [])"

text \<open>\<^verbatim>\<open>a || b\<close> on strings: the empty string gives way to \<open>b\<close>.\<close>

definition str_or :: "string \<Rightarrow> string \<Rightarrow> string" where
  "str_or a b = (if a = [] then b else a)"

subsection \<open>Numbers to text: \<^verbatim>\<open>toString()\<close> and template literals\<close>

definition digit_char :: "nat \<Rightarrow> char" where
  "digit_char d = ''0123456789'' ! d"

fun nat_to_string :: "nat \<Rightarrow> string" where
  "nat_to_string n =
     (if n < 10 then [digit_char n]
      else nat_to_string (n div 10) @ [digit_char (n mod 10)])"

declare nat_to_string.simps [simp del]

definition int_to_string :: "int \<Rightarrow> string" where
  "int_to_string i =
     (if i < 0 then CHR ''-'' # nat_to_string (nat (- i)) else nat_to_string (nat i))"

fun jsnum_toString :: "jsnum \<Rightarrow> string" where
  "jsnum_toString NaN = ''NaN''"
| "jsnum_toString (Num i) = int_to_string i"
text \<open>\<^verbatim>\<open>v.toString()\<close> on an identifier: a string is returned as it is.\<close>

fun jsval_toString :: "jsval \<Rightarrow> string" where
  "jsval_toString (JNumber n) = jsnum_toString n"
| "jsval_toString (JString s) = s"


subsection \<open>Text to numbers: \<^verbatim>\<open>Number(s)\<close>\<close>

text \<open>
  \<^verbatim>\<open>Number\<close> of a string strips white space at both ends, reads the empty string as
  \<open>0\<close> and a decimal numeral with an optional sign as its value. Every other text is
  \<^verbatim>\<open>NaN\<close> here: the numerals with a fraction, an exponent or a radix prefix and
  \<^verbatim>\<open>Infinity\<close> are not what an integer identifier prints as, and no selector option
  carries one.
\<close>

definition is_digit :: "char \<Rightarrow> bool" where
  "is_digit c = (48 \<le> (of_char c :: nat) \<and> (of_char c :: nat) \<le> 57)"

definition digit_val :: "char \<Rightarrow> nat" where
  "digit_val c = of_char c - 48"

fun parse_digits :: "nat \<Rightarrow> string \<Rightarrow> nat option" where
  "parse_digits acc [] = Some acc"
| "parse_digits acc (c # cs) =
     (if is_digit c then parse_digits (10 * acc + digit_val c) cs else None)"

definition is_white_space :: "char \<Rightarrow> bool" where
  "is_white_space c = ((of_char c :: nat) \<in> {9, 10, 11, 12, 13, 32})"

definition trim :: "string \<Rightarrow> string" where
  "trim s = rev (dropWhile is_white_space (rev (dropWhile is_white_space s)))"

definition unsigned_decimal :: "string \<Rightarrow> nat option" where
  "unsigned_decimal s = (if s = [] then None else parse_digits 0 s)"

definition StringToNumber :: "string \<Rightarrow> jsnum" where
  "StringToNumber s =
     (case trim s of
        [] \<Rightarrow> Num 0
      | c # cs \<Rightarrow>
          (if c = CHR ''-'' then
             (case unsigned_decimal cs of None \<Rightarrow> NaN | Some n \<Rightarrow> Num (- int n))
           else if c = CHR ''+'' then
             (case unsigned_decimal cs of None \<Rightarrow> NaN | Some n \<Rightarrow> Num (int n))
           else
             (case unsigned_decimal (c # cs) of None \<Rightarrow> NaN | Some n \<Rightarrow> Num (int n))))"

text \<open>\<^verbatim>\<open>Number(v)\<close>: a number is returned as it is, a string is read.\<close>

fun js_Number :: "jsval \<Rightarrow> jsnum" where
  "js_Number (JNumber n) = n"
| "js_Number (JString s) = StringToNumber s"

subsection \<open>Strings: \<^verbatim>\<open>toLowerCase()\<close> and \<^verbatim>\<open>includes()\<close>\<close>

definition lower_char :: "char \<Rightarrow> char" where
  "lower_char c =
     (if 65 \<le> (of_char c :: nat) \<and> (of_char c :: nat) \<le> 90
      then char_of ((of_char c :: nat) + 32) else c)"

definition toLowerCase :: "string \<Rightarrow> string" where
  "toLowerCase s = map lower_char s"

definition startsWith :: "string \<Rightarrow> string \<Rightarrow> bool" where
  "startsWith s sub = (take (length sub) s = sub)"

fun str_includes :: "string \<Rightarrow> string \<Rightarrow> bool" where
  "str_includes [] sub = (sub = [])"
| "str_includes (c # cs) sub = (startsWith (c # cs) sub \<or> str_includes cs sub)"

subsection \<open>Containers: \<^verbatim>\<open>Set\<close>, \<^verbatim>\<open>Map\<close> and \<^verbatim>\<open>Array.prototype.sort\<close>\<close>

text \<open>
  A \<^verbatim>\<open>Set\<close> keeps its members in the order of their first insertion, and
  \<^verbatim>\<open>Array.from\<close> lists them in that order. Membership is by SameValueZero, which is
  equality of the model's values (\<^verbatim>\<open>NaN\<close> is a member once).
\<close>

definition set_add :: "'a list \<Rightarrow> 'a \<Rightarrow> 'a list" where
  "set_add s v = (if v \<in> set s then s else s @ [v])"

text \<open>
  A \<^verbatim>\<open>Map\<close> is a list of entries in the order of the keys' first insertion;
  \<^verbatim>\<open>set\<close> on a present key replaces the value in place.
\<close>

definition map_has :: "('k \<times> 'v) list \<Rightarrow> 'k \<Rightarrow> bool" where
  "map_has m k = (k \<in> fst ` set m)"

definition map_set :: "('k \<times> 'v) list \<Rightarrow> 'k \<Rightarrow> 'v \<Rightarrow> ('k \<times> 'v) list" where
  "map_set m k v =
     (if map_has m k then map (\<lambda>(k', v'). if k' = k then (k', v) else (k', v')) m
      else m @ [(k, v)])"

definition map_values :: "('k \<times> 'v) list \<Rightarrow> 'v list" where
  "map_values m = map snd m"

text \<open>
  \<^verbatim>\<open>xs.sort((a, b) => a.name.localeCompare(b.name))\<close>: the sort is stable. The
  collation of \<^verbatim>\<open>localeCompare\<close> depends on the locale and is a parameter \<open>lc\<close>
  (negative, zero or positive as in JavaScript).
\<close>

fun insert_sorted :: "(string \<Rightarrow> string \<Rightarrow> int) \<Rightarrow> ('a \<Rightarrow> string) \<Rightarrow> 'a \<Rightarrow> 'a list \<Rightarrow> 'a list" where
  "insert_sorted lc key a [] = [a]"
| "insert_sorted lc key a (b # bs) =
     (if lc (key a) (key b) \<le> 0 then a # b # bs else b # insert_sorted lc key a bs)"

definition sort_by_name :: "(string \<Rightarrow> string \<Rightarrow> int) \<Rightarrow> ('a \<Rightarrow> string) \<Rightarrow> 'a list \<Rightarrow> 'a list" where
  "sort_by_name lc key xs = foldr (insert_sorted lc key) xs []"

text \<open>A collation that can be evaluated: the order of the character codes.\<close>

fun code_unit_compare :: "string \<Rightarrow> string \<Rightarrow> int" where
  "code_unit_compare [] [] = 0"
| "code_unit_compare [] (b # bs) = - 1"
| "code_unit_compare (a # as) [] = 1"
| "code_unit_compare (a # as) (b # bs) =
     (if (of_char a :: nat) < of_char b then - 1
      else if (of_char b :: nat) < of_char a then 1
      else code_unit_compare as bs)"

section \<open>The payload (interface \<^verbatim>\<open>ERDData\<close>, frontend/app/page.tsx)\<close>

text \<open>
  \<^verbatim>\<open>
  interface ERDData {
    tables: Array<{ id; name; database_id; database_name; workspace_id; workspace_name;
                    fields: Array<{ id; name; type; link_row_table_id? }> }>;
    relationships: Array<{ source_table_id; source_table_name; target_table_id;
                           target_table_name; field_id; field_name }>;
    databases?: Array<{ id; name; workspace_id; workspace_name; has_tables?; table_count? }>;
    workspaces?: Array<{ id; name }>;
  }
  \<close>
  An optional property is an \<open>option\<close>. The field names carry a prefix where two
  interfaces share a name.
\<close>

record table_field =
  f_id :: int
  f_name :: string
  f_type :: string
  link_row_table_id :: "int option"

record table =
  t_id :: int
  t_name :: string
  database_id :: jsval
  database_name :: string
  workspace_id :: jsval
  workspace_name :: string
  t_fields :: "table_field list"

record relationship =
  source_table_id :: int
  source_table_name :: string
  target_table_id :: int
  target_table_name :: string
  field_id :: int
  field_name :: string

record database =
  d_id :: jsval
  d_name :: string
  d_workspace_id :: jsval
  d_workspace_name :: string
  has_tables :: "bool option"
  table_count :: "int option"

record workspace =
  w_id :: jsval
  w_name :: string

record ERDData =
  tables :: "table list"
  relationships :: "relationship list"
  databases :: "database list option"
  workspaces :: "workspace list option"

text \<open>The entries of \<^verbatim>\<open>allDatabases\<close> and of \<^verbatim>\<open>allWorkspaces\<close>.\<close>

record database_entry =
  e_id :: jsval
  e_name :: string
  e_workspace_id :: jsval
  e_workspace_name :: string
  tableCount :: int
  hasTables :: bool

record workspace_entry =
  we_id :: jsval
  we_name :: string
  databaseCount :: int
  we_tableCount :: int

section \<open>Entity normalisation in \<^verbatim>\<open>Home\<close> (frontend/app/page.tsx)\<close>

text \<open>
  \<^verbatim>\<open>
  const allDatabases = useMemo(() => {
    if (erdData?.databases && erdData.databases.length > 0) {
      return erdData.databases.map(db => {
        const tableCount = db.table_count !== undefined ? db.table_count :
          erdData.tables.filter(t => Number(t.database_id) === db.id).length;
        const hasTables = db.has_tables !== undefined ? db.has_tables : tableCount > 0;
        return { id: db.id, name: db.name, workspace_id: db.workspace_id,
                 workspace_name: db.workspace_name, tableCount, hasTables };
      });
    }
    if (!erdData || !erdData.tables || erdData.tables.length === 0) return [];
    const uniqueDatabaseIds = new Set<number>();
    erdData.tables.forEach(table => {
      if (table.database_id) { uniqueDatabaseIds.add(Number(table.database_id)); }
    });
    const result = Array.from(uniqueDatabaseIds).map(dbId => {
      const sampleTable = erdData.tables.find(t => Number(t.database_id) === dbId);
      const tableCount = erdData.tables.filter(t => Number(t.database_id) === dbId).length;
      return { id: dbId, name: sampleTable?.database_name || `Database ${dbId}`,
               workspace_id: Number(sampleTable?.workspace_id),
               workspace_name: sampleTable?.workspace_name || 'Unknown Workspace',
               tableCount, hasTables: tableCount > 0 };
    });
    return result.sort((a, b) => a.name.localeCompare(b.name));
  }, [erdData]);
  \<close>
  \<^verbatim>\<open>erdData\<close> is \<^verbatim>\<open>null\<close> until the fetch has succeeded: an \<open>option\<close>.
\<close>

definition live_table_count :: "table list \<Rightarrow> jsval \<Rightarrow> int" where
  "live_table_count ts i =
     int (length (filter (\<lambda>t. strict_eq (JNumber (js_Number (database_id t))) i) ts))"

definition database_from_payload :: "ERDData \<Rightarrow> database \<Rightarrow> database_entry" where
  "database_from_payload data db =
     (let tableCount = (case table_count db of Some c \<Rightarrow> c
                        | None \<Rightarrow> live_table_count (tables data) (d_id db));
          hasTables = (case has_tables db of Some h \<Rightarrow> h | None \<Rightarrow> tableCount > 0)
      in \<lparr>e_id = d_id db, e_name = d_name db, e_workspace_id = d_workspace_id db,
          e_workspace_name = d_workspace_name db,
          tableCount = tableCount, hasTables = hasTables\<rparr>)"

definition uniqueDatabaseIds :: "table list \<Rightarrow> jsnum list" where
  "uniqueDatabaseIds ts =
     foldl (\<lambda>s t. if truthy (database_id t) then set_add s (js_Number (database_id t)) else s)
       [] ts"

definition database_from_tables :: "ERDData \<Rightarrow> jsnum \<Rightarrow> database_entry" where
  "database_from_tables data dbId =
     (let sampleTable = find (\<lambda>t. num_strict_eq (js_Number (database_id t)) dbId) (tables data);
          tableCount = int (length (filter (\<lambda>t. num_strict_eq (js_Number (database_id t)) dbId)
                              (tables data)))
      in \<lparr>e_id = JNumber dbId,
          e_name = (case sampleTable of
                      None \<Rightarrow> ''Database '' @ jsnum_toString dbId
                    | Some t \<Rightarrow> str_or (database_name t) (''Database '' @ jsnum_toString dbId)),
          e_workspace_id = JNumber (case sampleTable of None \<Rightarrow> NaN
                                    | Some t \<Rightarrow> js_Number (workspace_id t)),
          e_workspace_name = (case sampleTable of
                      None \<Rightarrow> ''Unknown Workspace''
                    | Some t \<Rightarrow> str_or (workspace_name t) ''Unknown Workspace''),
          tableCount = tableCount, hasTables = (tableCount > 0)\<rparr>)"

definition derived_databases :: "(string \<Rightarrow> string \<Rightarrow> int) \<Rightarrow> ERDData \<Rightarrow> database_entry list" where
  "derived_databases lc data =
     (if tables data = [] then []
      else sort_by_name lc e_name
             (map (database_from_tables data) (uniqueDatabaseIds (tables data))))"

definition allDatabases :: "(string \<Rightarrow> string \<Rightarrow> int) \<Rightarrow> ERDData option \<Rightarrow> database_entry list" where
  "allDatabases lc erdData =
     (case erdData of
        None \<Rightarrow> []
      | Some data \<Rightarrow>
          (case databases data of
             None \<Rightarrow> derived_databases lc data
           | Some dbs \<Rightarrow>
               if length dbs > 0 then map (database_from_payload data) dbs
               else derived_databases lc data))"

text \<open>
  \<^verbatim>\<open>
  const allWorkspaces = useMemo(() => {
    if (erdData?.workspaces && erdData.workspaces.length > 0) {
      return erdData.workspaces.map(ws => {
        const databasesInWorkspace = allDatabases.filter(db => db.workspace_id === ws.id);
        const tablesInWorkspace = erdData.tables.filter(t => Number(t.workspace_id) === ws.id);
        return { id: ws.id, name: ws.name, databaseCount: databasesInWorkspace.length,
                 tableCount: tablesInWorkspace.length };
      });
    }
    if (!erdData || !erdData.tables || erdData.tables.length === 0) return [];
    const uniqueWorkspaceIds = new Set<number>();
    erdData.tables.forEach(table => {
      if (table.workspace_id) { uniqueWorkspaceIds.add(Number(table.workspace_id)); }
    });
    const result = Array.from(uniqueWorkspaceIds).map(wsId => {
      const sampleTable = erdData.tables.find(t => Number(t.workspace_id) === wsId);
      const databaseIds = new Set<number>();
      erdData.tables.forEach(table => {
        if (Number(table.workspace_id) === wsId && table.database_id) {
          databaseIds.add(Number(table.database_id));
        }
      });
      const tableCount = erdData.tables.filter(t => Number(t.workspace_id) === wsId).length;
      return { id: wsId, name: sampleTable?.workspace_name || `Workspace ${wsId}`,
               databaseCount: databaseIds.size, tableCount };
    });
    return result.sort((a, b) => a.name.localeCompare(b.name));
  }, [erdData, allDatabases]);
  \<close>
\<close>

definition workspace_from_payload ::
  "database_entry list \<Rightarrow> ERDData \<Rightarrow> workspace \<Rightarrow> workspace_entry" where
  "workspace_from_payload all_dbs data ws =
     (let databasesInWorkspace = filter (\<lambda>db. strict_eq (e_workspace_id db) (w_id ws)) all_dbs;
          tablesInWorkspace =
            filter (\<lambda>t. strict_eq (JNumber (js_Number (workspace_id t))) (w_id ws)) (tables data)
      in \<lparr>we_id = w_id ws, we_name = w_name ws,
          databaseCount = int (length databasesInWorkspace),
          we_tableCount = int (length tablesInWorkspace)\<rparr>)"

definition uniqueWorkspaceIds :: "table list \<Rightarrow> jsnum list" where
  "uniqueWorkspaceIds ts =
     foldl (\<lambda>s t. if truthy (workspace_id t) then set_add s (js_Number (workspace_id t)) else s)
       [] ts"

definition workspace_from_tables :: "ERDData \<Rightarrow> jsnum \<Rightarrow> workspace_entry" where
  "workspace_from_tables data wsId =
     (let sampleTable = find (\<lambda>t. num_strict_eq (js_Number (workspace_id t)) wsId) (tables data);
          databaseIds =
            foldl (\<lambda>s t. if num_strict_eq (js_Number (workspace_id t)) wsId \<and> truthy (database_id t)
                           then set_add s (js_Number (database_id t)) else s)
              [] (tables data);
          tableCount = int (length (filter (\<lambda>t. num_strict_eq (js_Number (workspace_id t)) wsId)
                              (tables data)))
      in \<lparr>we_id = JNumber wsId,
          we_name = (case sampleTable of
                       None \<Rightarrow> ''Workspace '' @ jsnum_toString wsId
                     | Some t \<Rightarrow> str_or (workspace_name t) (''Workspace '' @ jsnum_toString wsId)),
          databaseCount = int (length databaseIds),
          we_tableCount = tableCount\<rparr>)"

definition derived_workspaces :: "(string \<Rightarrow> string \<Rightarrow> int) \<Rightarrow> ERDData \<Rightarrow> workspace_entry list" where
  "derived_workspaces lc data =
     (if tables data = [] then []
      else sort_by_name lc we_name
             (map (workspace_from_tables data) (uniqueWorkspaceIds (tables data))))"

definition allWorkspaces :: "(string \<Rightarrow> string \<Rightarrow> int) \<Rightarrow> ERDData option \<Rightarrow> workspace_entry list" where
  "allWorkspaces lc erdData =
     (case erdData of
        None \<Rightarrow> []
      | Some data \<Rightarrow>
          (case workspaces data of
             None \<Rightarrow> derived_workspaces lc data
           | Some wss \<Rightarrow>
               if length wss > 0
               then map (workspace_from_payload (allDatabases lc erdData) data) wss
               else derived_workspaces lc data))"

section \<open>Cascading filter state (frontend/app/page.tsx, components/ERDDiagram)\<close>

text \<open>
  Both the page component \<open>Home\<close> and the diagram component \<open>ERDDiagramInner\<close> hold
  the selection in two React state cells of type \<open>string\<close>:
  \<^verbatim>\<open>
  const [selectedWorkspace, setSelectedWorkspace] = useState<string>('all');
  const [selectedDatabase, setSelectedDatabase] = useState<string>('all');
  \<close>
  The two cells are one record here; a handler takes the record and returns the
  updated one.
\<close>

record filter_state =
  selectedWorkspace :: string
  selectedDatabase :: string

definition initial_state :: filter_state where
  "initial_state = \<lparr>selectedWorkspace = ''all'', selectedDatabase = ''all''\<rparr>"

text \<open>
  \<^verbatim>\<open>
  const handleWorkspaceChange = (e) => {
    setSelectedWorkspace(e.target.value);
    setSelectedDatabase('all'); // Reset database selection when workspace changes
  };
  const handleDatabaseChange = (e) => {
    setSelectedDatabase(e.target.value);
  };
  \<close>
  The diagram component's handlers take the value itself and do the same two updates.
\<close>

definition handleWorkspaceChange :: "string \<Rightarrow> filter_state \<Rightarrow> filter_state" where
  "handleWorkspaceChange v s = (s\<lparr>selectedWorkspace := v\<rparr>)\<lparr>selectedDatabase := ''all''\<rparr>"

definition handleDatabaseChange :: "string \<Rightarrow> filter_state \<Rightarrow> filter_state" where
  "handleDatabaseChange v s = s\<lparr>selectedDatabase := v\<rparr>"

text \<open>
  The database selector carries \<^verbatim>\<open>disabled={selectedWorkspace === 'all'}\<close>; a disabled
  control delivers no change event. The user interface is the step relation below: a
  change of the workspace selector is always possible, a change of the database
  selector only while the selector is enabled.
\<close>

definition database_selector_disabled :: "filter_state \<Rightarrow> bool" where
  "database_selector_disabled s = (selectedWorkspace s = ''all'')"

inductive ui_step :: "filter_state \<Rightarrow> filter_state \<Rightarrow> bool" where
  workspace_change: "ui_step s (handleWorkspaceChange v s)"
| database_change:
    "\<not> database_selector_disabled s \<Longrightarrow> ui_step s (handleDatabaseChange v s)"

inductive reachable :: "filter_state \<Rightarrow> bool" where
  reach_init: "reachable initial_state"
| reach_step: "reachable s \<Longrightarrow> ui_step s s' \<Longrightarrow> reachable s'"

section \<open>Filter derivations in \<^verbatim>\<open>Home\<close> (frontend/app/page.tsx)\<close>

text \<open>
  \<^verbatim>\<open>
  const filteredDatabases = useMemo(() => {
    if (!allDatabases || allDatabases.length === 0) return [];
    if (selectedWorkspace === 'all') { return allDatabases; }
    const workspaceId = Number(selectedWorkspace);
    const filtered = allDatabases.filter(db => db.workspace_id === workspaceId);
    return filtered;
  }, [allDatabases, selectedWorkspace]);
  \<close>
\<close>

definition filteredDatabases ::
  "(string \<Rightarrow> string \<Rightarrow> int) \<Rightarrow> ERDData option \<Rightarrow> filter_state \<Rightarrow> database_entry list" where
  "filteredDatabases lc erdData st =
     (if length (allDatabases lc erdData) = 0 then []
      else if selectedWorkspace st = ''all'' then allDatabases lc erdData
      else (let workspaceId = StringToNumber (selectedWorkspace st)
            in filter (\<lambda>db. strict_eq (e_workspace_id db) (JNumber workspaceId))
                 (allDatabases lc erdData)))"

text \<open>
  \<^verbatim>\<open>
  const filteredTables = useMemo(() => {
    if (!erdData?.tables) return [];
    let filtered = [...erdData.tables];
    if (selectedWorkspace !== 'all') {
      const workspaceId = Number(selectedWorkspace);
      filtered = filtered.filter(table => {
        const tableWorkspaceId = Number(table.workspace_id);
        const match = tableWorkspaceId === workspaceId;
        return match;
      });
    }
    if (selectedDatabase !== 'all') {
      const databaseId = Number(selectedDatabase);
      const dbFiltered = filtered.filter(table => {
        const tableDatabaseId = Number(table.database_id);
        const match = tableDatabaseId === databaseId;
        return match;
      });
      filtered = dbFiltered;
    }
    return filtered;
  }, [erdData, selectedWorkspace, selectedDatabase]);
  \<close>
  The diagram component has the same function over its \<^verbatim>\<open>tables\<close> property
  (components/ERDDiagram, \<^verbatim>\<open>filteredTables\<close>), the second filter written as a loop
  that pushes the matching tables in order.
\<close>

definition filter_by_workspace :: "string \<Rightarrow> table list \<Rightarrow> table list" where
  "filter_by_workspace sel filtered =
     (if sel \<noteq> ''all'' then
        (let workspaceId = StringToNumber sel
         in filter (\<lambda>table. num_strict_eq (js_Number (workspace_id table)) workspaceId) filtered)
      else filtered)"

definition filter_by_database :: "string \<Rightarrow> table list \<Rightarrow> table list" where
  "filter_by_database sel filtered =
     (if sel \<noteq> ''all'' then
        (let databaseId = StringToNumber sel
         in filter (\<lambda>table. num_strict_eq (js_Number (database_id table)) databaseId) filtered)
      else filtered)"

definition diagram_filteredTables :: "table list \<Rightarrow> filter_state \<Rightarrow> table list" where
  "diagram_filteredTables ts st =
     filter_by_database (selectedDatabase st) (filter_by_workspace (selectedWorkspace st) ts)"

definition filteredTables :: "ERDData option \<Rightarrow> filter_state \<Rightarrow> table list" where
  "filteredTables erdData st =
     (case erdData of
        None \<Rightarrow> []
      | Some data \<Rightarrow>
          filter_by_database (selectedDatabase st)
            (filter_by_workspace (selectedWorkspace st) (tables data)))"

text \<open>
  \<^verbatim>\<open>
  const databasesWithCorrectCounts = useMemo(() => {
    if (!erdData?.tables || !filteredDatabases) return [];
    return filteredDatabases.map(db => {
      const tableCount = erdData.tables.filter(t => Number(t.database_id) === db.id).length;
      return { ...db, tableCount, hasTables: tableCount > 0 };
    });
  }, [erdData, filteredDatabases]);
  \<close>
  This is the list the database selector shows.
\<close>

definition databasesWithCorrectCounts ::
  "(string \<Rightarrow> string \<Rightarrow> int) \<Rightarrow> ERDData option \<Rightarrow> filter_state \<Rightarrow> database_entry list" where
  "databasesWithCorrectCounts lc erdData st =
     (case erdData of
        None \<Rightarrow> []
      | Some data \<Rightarrow>
          map (\<lambda>db. db\<lparr>tableCount := live_table_count (tables data) (e_id db),
                       hasTables := (live_table_count (tables data) (e_id db) > 0)\<rparr>)
            (filteredDatabases lc erdData st))"

section \<open>The diagram component (components/ERDDiagram)\<close>

text \<open>
  \<^verbatim>\<open>
  const workspaces = useMemo(() => {
    const workspaceMap = new Map();
    tables.forEach(table => {
      const workspace = { id: table.workspace_id, name: table.workspace_name };
      workspaceMap.set(workspace.id, workspace);
    });
    return Array.from(workspaceMap.values()).sort((a, b) => a.name.localeCompare(b.name));
  }, [tables]);
  \<close>
\<close>

definition diagram_workspaces :: "(string \<Rightarrow> string \<Rightarrow> int) \<Rightarrow> table list \<Rightarrow> workspace list" where
  "diagram_workspaces lc ts =
     sort_by_name lc w_name
       (map_values
          (foldl (\<lambda>workspaceMap table.
                    map_set workspaceMap (workspace_id table)
                      \<lparr>w_id = workspace_id table, w_name = workspace_name table\<rparr>)
             [] ts))"

text \<open>
  \<^verbatim>\<open>
  const databases = useMemo(() => {
    const databaseMap = new Map<number, {...}>();
    tables.forEach(table => {
      const dbId = Number(table.database_id);
      if (!databaseMap.has(dbId)) {
        databaseMap.set(dbId, {
          id: dbId, name: table.database_name, workspace_id: Number(table.workspace_id),
          tableCount: tables.filter(t => Number(t.database_id) === dbId).length
        });
      }
    });
    return Array.from(databaseMap.values()).sort((a, b) => a.name.localeCompare(b.name));
  }, [tables]);
  \<close>
\<close>

record diagram_database =
  dd_id :: jsnum
  dd_name :: string
  dd_workspace_id :: jsnum
  dd_tableCount :: int

definition diagram_databases ::
  "(string \<Rightarrow> string \<Rightarrow> int) \<Rightarrow> table list \<Rightarrow> diagram_database list" where
  "diagram_databases lc ts =
     sort_by_name lc dd_name
       (map_values
          (foldl (\<lambda>databaseMap table.
                    (let dbId = js_Number (database_id table)
                     in if \<not> map_has databaseMap dbId then
                          map_set databaseMap dbId
                            \<lparr>dd_id = dbId, dd_name = database_name table,
                             dd_workspace_id = js_Number (workspace_id table),
                             dd_tableCount =
                               int (length (filter
                                 (\<lambda>t. num_strict_eq (js_Number (database_id t)) dbId) ts))\<rparr>
                        else databaseMap))
             [] ts))"

text \<open>
  The filter panel of the diagram component:
  \<^verbatim>\<open>
  const filteredDatabases = selectedWorkspace === 'all'
    ? databases
    : databases.filter(db => db.workspace_id === Number(selectedWorkspace));
  \<close>
\<close>

definition diagram_filteredDatabases ::
  "diagram_database list \<Rightarrow> filter_state \<Rightarrow> diagram_database list" where
  "diagram_filteredDatabases dbs st =
     (if selectedWorkspace st = ''all'' then dbs
      else filter (\<lambda>db. num_strict_eq (dd_workspace_id db) (StringToNumber (selectedWorkspace st)))
             dbs)"

text \<open>
  \<^verbatim>\<open>
  const filteredRelationships = useMemo(() => {
    const tableIds = new Set(filteredTables.map(table => table.id));
    return relationships.filter(
      rel => tableIds.has(rel.source_table_id) && tableIds.has(rel.target_table_id)
    );
  }, [relationships, filteredTables]);
  \<close>
\<close>

definition filteredRelationships ::
  "relationship list \<Rightarrow> table list \<Rightarrow> filter_state \<Rightarrow> relationship list" where
  "filteredRelationships rels ts st =
     (let tableIds = foldl set_add [] (map t_id (diagram_filteredTables ts st))
      in filter (\<lambda>rel. source_table_id rel \<in> set tableIds \<and> target_table_id rel \<in> set tableIds)
           rels)"

section \<open>Graph derivation (components/ERDDiagram)\<close>

text \<open>
  \<^verbatim>\<open>
  const initialNodes = filteredTables.map((table, index) => {
    const row = Math.floor(index / 3);
    const col = index % 3;
    return {
      id: table.id.toString(), type: 'tableNode',
      position: { x: col * 300 + 50, y: row * 400 + 50 },
      data: {
        label: `${table.name}`,
        fields: table.fields.map(field => ({
          ...field,
          isPrimary: field.name.toLowerCase().includes('id') &&
                     field.name.toLowerCase() === `${table.name.toLowerCase()}_id`,
          isForeign: field.type === 'link_row' || field.link_row_table_id !== undefined,
        })),
      },
      style: { width: 'auto', height: 'auto' }, draggable: true,
    };
  });
  const initialEdges = filteredRelationships.map((rel, index) => ({
    id: `e${index}`,
    source: rel.source_table_id.toString(), target: rel.target_table_id.toString(),
    label: rel.field_name, type: 'smoothstep', animated: true,
    style: { stroke: '#2563eb' }, labelStyle: { fill: '#2563eb', fontWeight: 500 },
  }));
  \<close>
  The constant style objects carry no data and are left out of the records.
\<close>

record node_field = table_field +
  isPrimary :: bool
  isForeign :: bool

record position =
  pos_x :: int
  pos_y :: int

record node_data =
  label :: string
  nd_fields :: "node_field list"

record node =
  n_id :: string
  n_type :: string
  n_position :: position
  n_data :: node_data
  draggable :: bool

record edge =
  edge_id :: string
  source :: string
  target :: string
  edge_label :: string
  edge_type :: string
  animated :: bool

definition is_primary :: "string \<Rightarrow> string \<Rightarrow> bool" where
  "is_primary table_name name =
     (str_includes (toLowerCase name) ''id''
      \<and> toLowerCase name = toLowerCase table_name @ ''_id'')"

definition is_foreign :: "table_field \<Rightarrow> bool" where
  "is_foreign f = (f_type f = ''link_row'' \<or> link_row_table_id f \<noteq> None)"

definition classify_field :: "table \<Rightarrow> table_field \<Rightarrow> node_field" where
  "classify_field tbl f =
     \<lparr>f_id = f_id f, f_name = f_name f, f_type = f_type f,
      link_row_table_id = link_row_table_id f,
      isPrimary = is_primary (t_name tbl) (f_name f),
      isForeign = is_foreign f\<rparr>"

definition table_node :: "nat \<Rightarrow> table \<Rightarrow> node" where
  "table_node index tbl =
     (let row = index div 3; col = index mod 3
      in \<lparr>n_id = int_to_string (t_id tbl), n_type = ''tableNode'',
          n_position = \<lparr>pos_x = int col * 300 + 50, pos_y = int row * 400 + 50\<rparr>,
          n_data = \<lparr>label = t_name tbl, nd_fields = map (classify_field tbl) (t_fields tbl)\<rparr>,
          draggable = True\<rparr>)"

definition initialNodes :: "table list \<Rightarrow> node list" where
  "initialNodes filtered = map (\<lambda>(index, tbl). table_node index tbl) (enumerate 0 filtered)"

definition relationship_edge :: "nat \<Rightarrow> relationship \<Rightarrow> edge" where
  "relationship_edge index rel =
     \<lparr>edge_id = ''e'' @ nat_to_string index,
      source = int_to_string (source_table_id rel),
      target = int_to_string (target_table_id rel),
      edge_label = field_name rel, edge_type = ''smoothstep'', animated = True\<rparr>"

definition initialEdges :: "relationship list \<Rightarrow> edge list" where
  "initialEdges filtered = map (\<lambda>(index, rel). relationship_edge index rel) (enumerate 0 filtered)"
text \<open>
  The component's earlier version (\<^verbatim>\<open>ERDDiagram\<close> without filters) builds its edges
  from all relationships it is given, with the same map:
  \<^verbatim>\<open>
  const edges: Edge[] = relationships.map((rel, index) => ({
    id: `e${index}`,
    source: rel.source_table_id.toString(), target: rel.target_table_id.toString(),
    label: rel.field_name, type: 'smoothstep', animated: true,
    style: { stroke: '#2563eb' },
  }));
  \<close>
\<close>

definition edges :: "relationship list \<Rightarrow> edge list" where
  "edges rels =
     map (\<lambda>(index, rel).
            \<lparr>edge_id = ''e'' @ nat_to_string index,
             source = int_to_string (source_table_id rel),
             target = int_to_string (target_table_id rel),
             edge_label = field_name rel, edge_type = ''smoothstep'', animated = True\<rparr>)
       (enumerate 0 rels)"


text \<open>The effect that sets the nodes and the edges, as a function of the component's inputs.\<close>

definition derive :: "table list \<Rightarrow> relationship list \<Rightarrow> filter_state \<Rightarrow> node list \<times> edge list" where
  "derive ts rels st =
     (initialNodes (diagram_filteredTables ts st),
      initialEdges (filteredRelationships rels ts st))"

section \<open>The application page (\<^verbatim>\<open>ERDPage\<close>)\<close>

text \<open>
  The page of one application builds its own edges from the application's tables and
  all relationships of the payload:
  \<^verbatim>\<open>
  const flowEdges = data.relationships
    .filter((rel: any) => {
      // Only include relationships for tables in this application
      const sourceTableExists = selectedApp.tables.some((t: any) => t.id === rel.source_table_id);
      const targetTableExists = selectedApp.tables.some((t: any) => t.id === rel.target_table_id);
      return sourceTableExists && targetTableExists;
    })
    .map((rel: any, index: number) => ({
      id: `e-${index}`,
      source: rel.source_table_id.toString(),
      target: rel.target_table_id.toString(),
      label: rel.field_name,
      type: 'default', animated: true, style: { stroke: '#4f46e5' }
    }));
  \<close>
  The application's tables are those of the page's node component
  (\<^verbatim>\<open>interface Table { id; name; fields: Field[] }\<close> with
  \<^verbatim>\<open>interface Field { id; name; type; primary }\<close>).
\<close>

record app_field =
  af_id :: int
  af_name :: string
  af_type :: string
  primary :: bool

record app_table =
  at_id :: int
  at_name :: string
  at_fields :: "app_field list"

definition flow_edge :: "nat \<Rightarrow> relationship \<Rightarrow> edge" where
  "flow_edge index rel =
     \<lparr>edge_id = ''e-'' @ nat_to_string index,
      source = int_to_string (source_table_id rel),
      target = int_to_string (target_table_id rel),
      edge_label = field_name rel, edge_type = ''default'', animated = True\<rparr>"

definition flowEdges :: "app_table list \<Rightarrow> relationship list \<Rightarrow> edge list" where
  "flowEdges app_tables rels =
     map (\<lambda>(index, rel). flow_edge index rel)
       (enumerate 0
          (filter (\<lambda>rel. list_ex (\<lambda>t. at_id t = source_table_id rel) app_tables
                        \<and> list_ex (\<lambda>t. at_id t = target_table_id rel) app_tables)
             rels))"

section \<open>The selectors' options (frontend/app/page.tsx)\<close>

text \<open>
  \<^verbatim>\<open>
  <option value="all">All Workspaces</option>
  {allWorkspaces.map((ws) => (
    <option key={ws.id} value={ws.id.toString()}> ... </option>
  ))}
  \<close>
  The workspace selector offers "all" and the printed identifier of every entry of
  \<^verbatim>\<open>allWorkspaces\<close>; choosing an option calls the change handler with its value.
\<close>

definition workspace_options :: "(string \<Rightarrow> string \<Rightarrow> int) \<Rightarrow> ERDData option \<Rightarrow> string list" where
  "workspace_options lc erdData =
     ''all'' # map (\<lambda>ws. jsval_toString (we_id ws)) (allWorkspaces lc erdData)"

section \<open>Sample payloads\<close>

text \<open>
  The scenario of the specification: two tables of database 10 in workspace 100 and one
  relationship between them. A third table lives in database 20 of workspace 200.
\<close>

definition users_table :: table where
  "users_table =
     \<lparr>t_id = 1, t_name = ''Users'', database_id = JNumber (Num 10), database_name = [],
      workspace_id = JNumber (Num 100), workspace_name = [],
      t_fields = [\<lparr>f_id = 1, f_name = ''id'', f_type = ''number'', link_row_table_id = None\<rparr>]\<rparr>"

definition orders_table :: table where
  "orders_table =
     \<lparr>t_id = 2, t_name = ''Orders'', database_id = JNumber (Num 10), database_name = [],
      workspace_id = JNumber (Num 100), workspace_name = [],
      t_fields = [\<lparr>f_id = 2, f_name = ''user_id'', f_type = ''link_row'',
                   link_row_table_id = Some 1\<rparr>,
                  \<lparr>f_id = 3, f_name = ''Orders_ID'', f_type = ''number'',
                   link_row_table_id = None\<rparr>]\<rparr>"

definition archive_table :: table where
  "archive_table =
     \<lparr>t_id = 3, t_name = ''Archive'', database_id = JNumber (Num 20),
      database_name = ''Cold storage'', workspace_id = JNumber (Num 200),
      workspace_name = ''Backoffice'', t_fields = []\<rparr>"

definition user_id_relationship :: relationship where
  "user_id_relationship =
     \<lparr>source_table_id = 2, source_table_name = ''Orders'', target_table_id = 1,
      target_table_name = ''Users'', field_id = 2, field_name = ''user_id''\<rparr>"

definition archive_relationship :: relationship where
  "archive_relationship =
     \<lparr>source_table_id = 2, source_table_name = ''Orders'', target_table_id = 3,
      target_table_name = ''Archive'', field_id = 4, field_name = ''archived_in''\<rparr>"

definition workspace_100_selected :: filter_state where
  "workspace_100_selected = handleWorkspaceChange ''100'' initial_state"

text \<open>
  A payload with an explicit database list whose \<^verbatim>\<open>table_count\<close> (7) differs from the
  number of tables of that database in the payload (2).
\<close>

definition shop_database :: database where
  "shop_database =
     \<lparr>d_id = JNumber (Num 10), d_name = ''Shop'', d_workspace_id = JNumber (Num 100),
      d_workspace_name = ''Main'', has_tables = None, table_count = Some 7\<rparr>"

definition shop_payload :: ERDData where
  "shop_payload =
     \<lparr>tables = [users_table, orders_table], relationships = [user_id_relationship],
      databases = Some [shop_database], workspaces = None\<rparr>"

text \<open>
  A payload whose explicit database list carries the workspace id as JSON text,
  \<^verbatim>\<open>{"id": 10, "name": "Shop", "workspace_id": "100", "workspace_name": "Main"}\<close>.
\<close>

definition text_id_database :: database where
  "text_id_database =
     \<lparr>d_id = JNumber (Num 10), d_name = ''Shop'', d_workspace_id = JString ''100'',
      d_workspace_name = ''Main'', has_tables = None, table_count = None\<rparr>"

definition text_id_payload :: ERDData where
  "text_id_payload =
     \<lparr>tables = [users_table, orders_table], relationships = [user_id_relationship],
      databases = Some [text_id_database], workspaces = None\<rparr>"

text \<open>The scenario of the specification, with no explicit lists.\<close>

definition scenario_payload :: ERDData where
  "scenario_payload =
     \<lparr>tables = [users_table, orders_table], relationships = [user_id_relationship],
      databases = None, workspaces = None\<rparr>"

text \<open>A table whose identifiers arrive as JSON text.\<close>

definition invoices_table :: table where
  "invoices_table =
     \<lparr>t_id = 4, t_name = ''Invoices'', database_id = JString ''10'', database_name = ''Shop'',
      workspace_id = JString ''100'', workspace_name = ''Main'', t_fields = []\<rparr>"

text \<open>A table of the database with identifier 0, and a payload that holds only it.\<close>

definition unfiled_table :: table where
  "unfiled_table =
     \<lparr>t_id = 5, t_name = ''Scratchpad'', database_id = JNumber (Num 0),
      database_name = ''Unfiled'', workspace_id = JNumber (Num 100), workspace_name = ''Main'',
      t_fields = []\<rparr>"

definition unfiled_payload :: ERDData where
  "unfiled_payload =
     \<lparr>tables = [unfiled_table], relationships = [], databases = None, workspaces = None\<rparr>"

text \<open>Two tables of workspace 100 that disagree on the workspace's name.\<close>

definition old_name_table :: table where
  "old_name_table =
     \<lparr>t_id = 6, t_name = ''Leads'', database_id = JNumber (Num 30), database_name = ''CRM'',
      workspace_id = JNumber (Num 100), workspace_name = ''Old name'', t_fields = []\<rparr>"

definition new_name_table :: table where
  "new_name_table =
     \<lparr>t_id = 7, t_name = ''Deals'', database_id = JNumber (Num 30), database_name = ''Sales'',
      workspace_id = JNumber (Num 100), workspace_name = ''New name'', t_fields = []\<rparr>"

definition renamed_payload :: ERDData where
  "renamed_payload =
     \<lparr>tables = [old_name_table, new_name_table], relationships = [], databases = None,
      workspaces = None\<rparr>"

text \<open>
  A payload in which a table of database 10 names workspace 200, while the first table of
  database 10 names workspace 100.
\<close>

definition moved_table :: table where
  "moved_table =
     \<lparr>t_id = 8, t_name = ''Returns'', database_id = JNumber (Num 10), database_name = [],
      workspace_id = JNumber (Num 200), workspace_name = [], t_fields = []\<rparr>"

definition moved_payload :: ERDData where
  "moved_payload =
     \<lparr>tables = [users_table, moved_table], relationships = [], databases = None,
      workspaces = None\<rparr>"

text \<open>
  A payload whose explicit workspace list names a workspace, 200, that no database and
  no table belongs to.
\<close>

definition empty_workspace_payload :: ERDData where
  "empty_workspace_payload =
     \<lparr>tables = [users_table, orders_table], relationships = [user_id_relationship],
      databases = Some [shop_database],
      workspaces = Some [\<lparr>w_id = JNumber (Num 100), w_name = ''Main''\<rparr>,
                         \<lparr>w_id = JNumber (Num 200), w_name = ''Empty''\<rparr>]\<rparr>"

text \<open>The tables of one application, as the application page receives them.\<close>

definition shop_app_tables :: "app_table list" where
  "shop_app_tables =
     [\<lparr>at_id = 1, at_name = ''Users'', at_fields = []\<rparr>,
      \<lparr>at_id = 2, at_name = ''Orders'', at_fields = []\<rparr>]"

text \<open>
  A payload with an explicit database list and tables that hold their identifiers as
  numbers (Users, Archive) and as JSON text (Invoices).
\<close>

definition mixed_payload :: ERDData where
  "mixed_payload =
     \<lparr>tables = [users_table, invoices_table, archive_table], relationships = [],
      databases = Some [shop_database], workspaces = None\<rparr>"

section \<open>Properties of the filter state\<close>

text \<open>
  C1. For every filter state and every value w, the workspace-change handler sets the
  workspace selection to w and resets the database selection to "all", whatever the
  database selection was; in particular the database selection is "all" after
  setDatabase(d) followed by setWorkspace(w2), for every d and w2.
\<close>

theorem C1_setWorkspace_resets_database:
  "selectedWorkspace (handleWorkspaceChange w s) = w
   \<and> selectedDatabase (handleWorkspaceChange w s) = ''all''
   \<and> selectedDatabase (handleWorkspaceChange w2 (handleDatabaseChange d s)) = ''all''
   \<and> selectedWorkspace (handleWorkspaceChange w2 (handleDatabaseChange d s)) = w2"
  by (simp add: handleWorkspaceChange_def handleDatabaseChange_def)

lemma ui_step_keeps_invariant:
  assumes "ui_step s s'"
    and "selectedWorkspace s = ''all'' \<longrightarrow> selectedDatabase s = ''all''"
  shows "selectedWorkspace s' = ''all'' \<longrightarrow> selectedDatabase s' = ''all''"
  using assms
proof (induction rule: ui_step.induct)
  case (workspace_change s v)
  show ?case by (simp add: handleWorkspaceChange_def)
next
  case (database_change s v)
  then show ?case
    by (simp add: handleDatabaseChange_def database_selector_disabled_def)
qed

text \<open>
  C10. While the workspace selection is "all" the database selector is disabled, so in
  every state reachable from the initial state through the two selectors a workspace
  selection of "all" comes with a database selection of "all": a specific database is
  selected only while a specific workspace is.
\<close>

theorem C10_specific_database_needs_specific_workspace:
  assumes "reachable s"
  shows "(selectedWorkspace s = ''all'' \<longrightarrow> database_selector_disabled s)
         \<and> (selectedWorkspace s = ''all'' \<longrightarrow> selectedDatabase s = ''all'')"
proof -
  have "selectedWorkspace s = ''all'' \<longrightarrow> selectedDatabase s = ''all''"
    using assms
  proof (induction rule: reachable.induct)
    case reach_init
    show ?case by (simp add: initial_state_def)
  next
    case (reach_step s s')
    then show ?case using ui_step_keeps_invariant by blast
  qed
  then show ?thesis by (simp add: database_selector_disabled_def)
qed

theorem C10_witness:
  "reachable (handleDatabaseChange ''10'' (handleWorkspaceChange ''100'' initial_state))
   \<and> selectedDatabase (handleDatabaseChange ''10'' (handleWorkspaceChange ''100'' initial_state)) = ''10''
   \<and> selectedWorkspace (handleDatabaseChange ''10'' (handleWorkspaceChange ''100'' initial_state)) \<noteq> ''all''
   \<and> reachable (handleWorkspaceChange ''all''
        (handleDatabaseChange ''10'' (handleWorkspaceChange ''100'' initial_state)))
   \<and> selectedDatabase (handleWorkspaceChange ''all''
        (handleDatabaseChange ''10'' (handleWorkspaceChange ''100'' initial_state))) = ''all''"
proof -
  let ?s1 = "handleWorkspaceChange ''100'' initial_state"
  let ?s2 = "handleDatabaseChange ''10'' ?s1"
  let ?s3 = "handleWorkspaceChange ''all'' ?s2"
  have r1: "reachable ?s1"
    by (rule reach_step [OF reach_init workspace_change])
  have en: "\<not> database_selector_disabled ?s1"
    by (simp add: database_selector_disabled_def handleWorkspaceChange_def)
  have r2: "reachable ?s2"
    by (rule reach_step [OF r1 database_change [OF en]])
  have r3: "reachable ?s3"
    by (rule reach_step [OF r2 workspace_change])
  have all3: "selectedWorkspace ?s3 = ''all''"
    by (simp add: handleWorkspaceChange_def)
  from C10_specific_database_needs_specific_workspace [OF r3] all3
  have "selectedDatabase ?s3 = ''all''" by blast
  moreover have "selectedDatabase ?s2 = ''10''"
    by (simp add: handleDatabaseChange_def)
  moreover have "selectedWorkspace ?s2 \<noteq> ''all''"
    by (simp add: handleDatabaseChange_def handleWorkspaceChange_def)
  ultimately show ?thesis using r2 r3 by simp
qed

section \<open>Facts about the JavaScript primitives\<close>

subsection \<open>Printing an integer and reading it back\<close>

lemma digit_char_props:
  assumes "d < 10"
  shows "is_digit (digit_char d) \<and> digit_val (digit_char d) = d
         \<and> \<not> is_white_space (digit_char d)"
proof -
  from assms have "d \<in> {0,1,2,3,4,5,6,7,8,9}" by auto
  then show ?thesis
    by (auto simp: digit_char_def is_digit_def digit_val_def is_white_space_def)
qed

lemma parse_digits_snoc:
  "parse_digits acc (xs @ [c]) =
     (case parse_digits acc xs of
        None \<Rightarrow> None
      | Some v \<Rightarrow> if is_digit c then Some (10 * v + digit_val c) else None)"
  by (induction xs arbitrary: acc) auto

lemma parse_digits_nat_to_string: "parse_digits 0 (nat_to_string n) = Some n"
proof (induction n rule: nat_to_string.induct)
  case (1 n)
  show ?case
  proof (cases "n < 10")
    case True
    then show ?thesis
      using digit_char_props [of n] by (simp add: nat_to_string.simps [of n])
  next
    case False
    have d: "n mod 10 < 10" by simp
    from False 1 have ih: "parse_digits 0 (nat_to_string (n div 10)) = Some (n div 10)"
      by simp
    show ?thesis
      using False ih digit_char_props [OF d]
      by (simp add: nat_to_string.simps [of n] parse_digits_snoc)
  qed
qed

lemma nat_to_string_digits: "c \<in> set (nat_to_string n) \<Longrightarrow> is_digit c"
proof (induction n rule: nat_to_string.induct)
  case (1 n)
  show ?case
  proof (cases "n < 10")
    case True
    then show ?thesis
      using 1 digit_char_props [of n] by (simp add: nat_to_string.simps [of n])
  next
    case False
    have d: "n mod 10 < 10" by simp
    show ?thesis
      using False 1 digit_char_props [OF d]
      by (auto simp add: nat_to_string.simps [of n])
  qed
qed

lemma nat_to_string_nonempty: "nat_to_string n \<noteq> []"
  by (subst nat_to_string.simps) simp

lemma is_digit_not_space: "is_digit c \<Longrightarrow> \<not> is_white_space c"
  by (auto simp: is_digit_def is_white_space_def)

lemma is_digit_not_sign: "is_digit c \<Longrightarrow> c \<noteq> CHR ''-'' \<and> c \<noteq> CHR ''+''"
  by (auto simp: is_digit_def)

lemma trim_id:
  assumes "s \<noteq> []" and "\<not> is_white_space (hd s)" and "\<not> is_white_space (last s)"
  shows "trim s = s"
proof -
  from assms have a: "dropWhile is_white_space s = s"
    by (cases s) auto
  from assms have "rev s \<noteq> []" and "\<not> is_white_space (hd (rev s))"
    by (simp_all add: hd_rev)
  then have "dropWhile is_white_space (rev s) = rev s"
    by (cases "rev s") auto
  with a show ?thesis by (simp add: trim_def)
qed

lemma trim_nat_to_string: "trim (nat_to_string n) = nat_to_string n"
proof (rule trim_id)
  show ne: "nat_to_string n \<noteq> []" by (rule nat_to_string_nonempty)
  from ne have "hd (nat_to_string n) \<in> set (nat_to_string n)" by simp
  then show "\<not> is_white_space (hd (nat_to_string n))"
    using nat_to_string_digits is_digit_not_space by blast
  from ne have "last (nat_to_string n) \<in> set (nat_to_string n)" by simp
  then show "\<not> is_white_space (last (nat_to_string n))"
    using nat_to_string_digits is_digit_not_space by blast
qed

lemma StringToNumber_nat_to_string: "StringToNumber (nat_to_string n) = Num (int n)"
proof -
  obtain c cs where e: "nat_to_string n = c # cs"
    using nat_to_string_nonempty by (cases "nat_to_string n") auto
  then have "is_digit c" using nat_to_string_digits [of c n] by simp
  then have "c \<noteq> CHR ''-''" "c \<noteq> CHR ''+''" using is_digit_not_sign by auto
  moreover have "unsigned_decimal (c # cs) = Some n"
    using parse_digits_nat_to_string [of n] e by (simp add: unsigned_decimal_def)
  ultimately show ?thesis
    using e trim_nat_to_string [of n] by (simp add: StringToNumber_def)
qed

lemma StringToNumber_int_to_string: "StringToNumber (int_to_string i) = Num i"
proof (cases "i < 0")
  case False
  then show ?thesis
    by (simp add: int_to_string_def StringToNumber_nat_to_string)
next
  case True
  let ?t = "nat_to_string (nat (- i))"
  have ne: "?t \<noteq> []" by (rule nat_to_string_nonempty)
  have "last (CHR ''-'' # ?t) = last ?t" using ne by simp
  moreover have "last ?t \<in> set ?t" using ne by simp
  ultimately have l: "\<not> is_white_space (last (CHR ''-'' # ?t))"
    using nat_to_string_digits is_digit_not_space by metis
  have h: "\<not> is_white_space (hd (CHR ''-'' # ?t))"
    by (simp add: is_white_space_def)
  have tr: "trim (CHR ''-'' # ?t) = CHR ''-'' # ?t"
    by (rule trim_id [OF _ h l]) simp
  have "unsigned_decimal ?t = Some (nat (- i))"
    using ne parse_digits_nat_to_string by (simp add: unsigned_decimal_def)
  with tr True show ?thesis
    by (simp add: int_to_string_def StringToNumber_def)
qed

lemma StringToNumber_100: "StringToNumber ''100'' = Num 100"
  by (simp add: StringToNumber_def trim_def is_white_space_def unsigned_decimal_def
      is_digit_def digit_val_def)

lemma StringToNumber_all: "StringToNumber ''all'' = NaN"
  by (simp add: StringToNumber_def trim_def is_white_space_def unsigned_decimal_def
      is_digit_def digit_val_def)

subsection \<open>Substrings and lower case\<close>

lemma startsWith_iff: "startsWith s sub \<longleftrightarrow> (\<exists>ss. s = sub @ ss)"
  unfolding startsWith_def by (metis append_eq_conv_conj)

lemma str_includes_iff: "str_includes s sub \<longleftrightarrow> (\<exists>ps ss. s = ps @ sub @ ss)"
proof (induction s)
  case Nil
  then show ?case by auto
next
  case (Cons c cs)
  show ?case
  proof
    assume "str_includes (c # cs) sub"
    then consider "startsWith (c # cs) sub" | "str_includes cs sub" by auto
    then show "\<exists>ps ss. c # cs = ps @ sub @ ss"
    proof cases
      case 1
      then obtain ss where "c # cs = sub @ ss" using startsWith_iff by blast
      then have "c # cs = [] @ sub @ ss" by simp
      then show ?thesis by blast
    next
      case 2
      then obtain ps ss where "cs = ps @ sub @ ss" using Cons.IH by blast
      then have "c # cs = (c # ps) @ sub @ ss" by simp
      then show ?thesis by blast
    qed
  next
    assume "\<exists>ps ss. c # cs = ps @ sub @ ss"
    then obtain ps ss where e: "c # cs = ps @ sub @ ss" by blast
    show "str_includes (c # cs) sub"
    proof (cases ps)
      case Nil
      then have "startsWith (c # cs) sub" using e startsWith_iff by auto
      then show ?thesis by simp
    next
      case (Cons p ps')
      then have "cs = ps' @ sub @ ss" using e by simp
      then have "str_includes cs sub" using Cons.IH by blast
      then show ?thesis by simp
    qed
  qed
qed

lemma toLowerCase_append: "toLowerCase (a @ b) = toLowerCase a @ toLowerCase b"
  by (simp add: toLowerCase_def)

lemma toLowerCase_suffix: "toLowerCase ''_id'' = ''_id''"
  by (simp add: toLowerCase_def lower_char_def)

subsection \<open>Sets, maps and the sort\<close>

lemma set_foldl_set_add: "set (foldl set_add acc xs) = set acc \<union> set xs"
  by (induction xs arbitrary: acc) (auto simp: set_add_def)

section \<open>Properties of the diagram component\<close>

lemma sample_tables_in_workspace_100:
  "diagram_filteredTables [users_table, orders_table, archive_table] workspace_100_selected
     = [users_table, orders_table]"
  by (simp add: diagram_filteredTables_def filter_by_workspace_def filter_by_database_def
      workspace_100_selected_def handleWorkspaceChange_def initial_state_def
      StringToNumber_100 num_strict_eq_def users_table_def orders_table_def archive_table_def
      Let_def)

text \<open>
  C2. For every list of relationships and every filter state, filteredRelationships
  returns, in their order, exactly the relationships whose source table id and target
  table id are both ids of tables in filteredTables; a relationship whose target (or
  source) is not among them is absent from the result.
\<close>

theorem C2_filteredRelationships_both_endpoints:
  "filteredRelationships rels ts st =
     filter (\<lambda>rel. source_table_id rel \<in> t_id ` set (diagram_filteredTables ts st)
                 \<and> target_table_id rel \<in> t_id ` set (diagram_filteredTables ts st)) rels
   \<and> (\<forall>rel. target_table_id rel \<notin> t_id ` set (diagram_filteredTables ts st)
          \<longrightarrow> rel \<notin> set (filteredRelationships rels ts st))
   \<and> (\<forall>rel. source_table_id rel \<notin> t_id ` set (diagram_filteredTables ts st)
          \<longrightarrow> rel \<notin> set (filteredRelationships rels ts st))"
  by (simp add: filteredRelationships_def set_foldl_set_add)

theorem C2_witness:
  "source_table_id archive_relationship
     \<in> t_id ` set (diagram_filteredTables [users_table, orders_table, archive_table]
                     workspace_100_selected)
   \<and> target_table_id archive_relationship
     \<notin> t_id ` set (diagram_filteredTables [users_table, orders_table, archive_table]
                     workspace_100_selected)
   \<and> archive_relationship
     \<notin> set (filteredRelationships [user_id_relationship, archive_relationship]
               [users_table, orders_table, archive_table] workspace_100_selected)
   \<and> filteredRelationships [user_id_relationship, archive_relationship]
        [users_table, orders_table, archive_table] workspace_100_selected
      = [user_id_relationship]"
proof -
  let ?ts = "[users_table, orders_table, archive_table]"
  let ?rels = "[user_id_relationship, archive_relationship]"
  note c2 = C2_filteredRelationships_both_endpoints [of ?rels ?ts workspace_100_selected]
  have src: "source_table_id archive_relationship
               \<in> t_id ` set (diagram_filteredTables ?ts workspace_100_selected)"
    unfolding sample_tables_in_workspace_100
    by (simp add: archive_relationship_def orders_table_def)
  have tgt: "target_table_id archive_relationship
               \<notin> t_id ` set (diagram_filteredTables ?ts workspace_100_selected)"
    unfolding sample_tables_in_workspace_100
    by (simp add: archive_relationship_def orders_table_def users_table_def)
  from c2 tgt
  have out: "archive_relationship
               \<notin> set (filteredRelationships ?rels ?ts workspace_100_selected)"
    by blast
  from c2 have "filteredRelationships ?rels ?ts workspace_100_selected =
     filter (\<lambda>rel. source_table_id rel
                     \<in> t_id ` set (diagram_filteredTables ?ts workspace_100_selected)
                 \<and> target_table_id rel
                     \<in> t_id ` set (diagram_filteredTables ?ts workspace_100_selected)) ?rels"
    by blast
  then have eq: "filteredRelationships ?rels ?ts workspace_100_selected
                   = [user_id_relationship]"
    unfolding sample_tables_in_workspace_100
    by (simp add: archive_relationship_def orders_table_def users_table_def
        user_id_relationship_def)
  from src tgt out eq show ?thesis by blast
qed



section \<open>Properties of the graph derivation\<close>

lemma nat_to_string_inj: "nat_to_string m = nat_to_string n \<Longrightarrow> m = n"
  by (metis parse_digits_nat_to_string option.inject)

lemma nth_map_enumerate:
  "i < length xs \<Longrightarrow> map (\<lambda>(k, x). f k x) (enumerate 0 xs) ! i = f i (xs ! i)"
  by (simp add: nth_enumerate_eq)

lemma nth_initialEdges:
  "i < length rels \<Longrightarrow> initialEdges rels ! i = relationship_edge i (rels ! i)"
  unfolding initialEdges_def by (rule nth_map_enumerate)

lemma map_fst_enumerate0: "map fst (enumerate 0 xs) = [0..<length xs]"
  by (simp add: enumerate_eq_zip)

lemma nth_flowEdges:
  "i < length (filter (\<lambda>rel. list_ex (\<lambda>t. at_id t = source_table_id rel) app_tables
                        \<and> list_ex (\<lambda>t. at_id t = target_table_id rel) app_tables) rels)
   \<Longrightarrow> flowEdges app_tables rels ! i =
        flow_edge i (filter (\<lambda>rel. list_ex (\<lambda>t. at_id t = source_table_id rel) app_tables
                        \<and> list_ex (\<lambda>t. at_id t = target_table_id rel) app_tables) rels ! i)"
  unfolding flowEdges_def by (rule nth_map_enumerate)

lemma distinct_indexed_names:
  "distinct (map (\<lambda>i. p @ nat_to_string i) [0..<n])"
proof -
  have "inj_on (\<lambda>i. p @ nat_to_string i) (set [0..<n])"
    by (rule inj_onI) (simp add: nat_to_string_inj)
  then show ?thesis by (simp add: distinct_map)
qed

text \<open>
  C7 (as amended). The diagram component's graph derivation (initialEdges, and edges of
  the component's earlier version, which is the same map) emits exactly one edge per
  filtered relationship, in order: the edge at position i is labelled with the field name
  of relationship i, runs from its source table id to its target table id (both printed
  in decimal) and is named "e" followed by the decimal index i. The application page's
  builder (flowEdges) emits one edge per relationship whose two endpoints are tables of
  the application, in order, labelled and directed in the same way, and named "e-"
  followed by the decimal position among the relationships it keeps. In both builders
  the names depend on the position only, not on any table id, and are pairwise distinct.
\<close>

theorem C7_one_edge_per_relationship_per_builder:
  "length (initialEdges rels) = length rels
   \<and> (\<forall>i < length rels.
         initialEdges rels ! i =
           \<lparr>edge_id = ''e'' @ nat_to_string i,
            source = int_to_string (source_table_id (rels ! i)),
            target = int_to_string (target_table_id (rels ! i)),
            edge_label = field_name (rels ! i),
            edge_type = ''smoothstep'', animated = True\<rparr>)
   \<and> map edge_id (initialEdges rels) = map (\<lambda>i. ''e'' @ nat_to_string i) [0..<length rels]
   \<and> distinct (map edge_id (initialEdges rels))
   \<and> edges rels = initialEdges rels
   \<and> length (flowEdges app_tables rels)
       = length (filter (\<lambda>rel. source_table_id rel \<in> at_id ` set app_tables
                              \<and> target_table_id rel \<in> at_id ` set app_tables) rels)
   \<and> (\<forall>i < length (flowEdges app_tables rels).
         flowEdges app_tables rels ! i =
           \<lparr>edge_id = ''e-'' @ nat_to_string i,
            source = int_to_string (source_table_id
              (filter (\<lambda>rel. source_table_id rel \<in> at_id ` set app_tables
                            \<and> target_table_id rel \<in> at_id ` set app_tables) rels ! i)),
            target = int_to_string (target_table_id
              (filter (\<lambda>rel. source_table_id rel \<in> at_id ` set app_tables
                            \<and> target_table_id rel \<in> at_id ` set app_tables) rels ! i)),
            edge_label = field_name
              (filter (\<lambda>rel. source_table_id rel \<in> at_id ` set app_tables
                            \<and> target_table_id rel \<in> at_id ` set app_tables) rels ! i),
            edge_type = ''default'', animated = True\<rparr>)
   \<and> map edge_id (flowEdges app_tables rels)
       = map (\<lambda>i. ''e-'' @ nat_to_string i) [0..<length (flowEdges app_tables rels)]
   \<and> distinct (map edge_id (flowEdges app_tables rels))"
proof -
  let ?kept = "filter (\<lambda>rel. source_table_id rel \<in> at_id ` set app_tables
                            \<and> target_table_id rel \<in> at_id ` set app_tables) rels"
  have kept: "filter (\<lambda>rel. list_ex (\<lambda>t. at_id t = source_table_id rel) app_tables
                        \<and> list_ex (\<lambda>t. at_id t = target_table_id rel) app_tables) rels = ?kept"
    by (rule filter_cong) (auto simp: list_ex_iff intro: rev_image_eqI)
  have len: "length (initialEdges rels) = length rels"
    by (simp add: initialEdges_def)
  have nth: "\<forall>i < length rels.
         initialEdges rels ! i =
           \<lparr>edge_id = ''e'' @ nat_to_string i,
            source = int_to_string (source_table_id (rels ! i)),
            target = int_to_string (target_table_id (rels ! i)),
            edge_label = field_name (rels ! i),
            edge_type = ''smoothstep'', animated = True\<rparr>"
    by (simp add: nth_initialEdges relationship_edge_def)
  have ids: "map edge_id (initialEdges rels) = map (\<lambda>i. ''e'' @ nat_to_string i) [0..<length rels]"
  proof (rule nth_equalityI)
    show "length (map edge_id (initialEdges rels))
            = length (map (\<lambda>i. ''e'' @ nat_to_string i) [0..<length rels])"
      using len by simp
  next
    fix i assume "i < length (map edge_id (initialEdges rels))"
    then have i: "i < length rels" using len by simp
    then show "map edge_id (initialEdges rels) ! i
                 = map (\<lambda>i. ''e'' @ nat_to_string i) [0..<length rels] ! i"
      using nth len by simp
  qed
  have dist: "distinct (map edge_id (initialEdges rels))"
    unfolding ids by (rule distinct_indexed_names)
  have flen: "length (flowEdges app_tables rels) = length ?kept"
    by (simp add: flowEdges_def kept)
  have fnth: "\<forall>i < length (flowEdges app_tables rels).
         flowEdges app_tables rels ! i =
           \<lparr>edge_id = ''e-'' @ nat_to_string i,
            source = int_to_string (source_table_id (?kept ! i)),
            target = int_to_string (target_table_id (?kept ! i)),
            edge_label = field_name (?kept ! i),
            edge_type = ''default'', animated = True\<rparr>"
    using nth_flowEdges [of _ app_tables rels]
    by (simp add: flen kept flow_edge_def)
  have fids: "map edge_id (flowEdges app_tables rels)
       = map (\<lambda>i. ''e-'' @ nat_to_string i) [0..<length (flowEdges app_tables rels)]"
  proof (rule nth_equalityI)
    show "length (map edge_id (flowEdges app_tables rels))
            = length (map (\<lambda>i. ''e-'' @ nat_to_string i) [0..<length (flowEdges app_tables rels)])"
      by simp
  next
    fix i assume "i < length (map edge_id (flowEdges app_tables rels))"
    then have i: "i < length (flowEdges app_tables rels)" by simp
    then show "map edge_id (flowEdges app_tables rels) ! i
                 = map (\<lambda>i. ''e-'' @ nat_to_string i) [0..<length (flowEdges app_tables rels)] ! i"
      using fnth by simp
  qed
  have fdist: "distinct (map edge_id (flowEdges app_tables rels))"
    by (subst fids) (rule distinct_indexed_names)
  have same: "edges rels = initialEdges rels"
    by (simp add: edges_def initialEdges_def relationship_edge_def)
  from len nth ids dist same flen fnth fids fdist show ?thesis by blast
qed

text \<open>
  The claim as stated fails for the application page's builder: its edge for the
  relationship at position 0 is named "e-0", not "e0", and a relationship to a table
  outside the application gets no edge.
\<close>

theorem C7_counterexample:
  "flowEdges shop_app_tables [user_id_relationship] =
     [\<lparr>edge_id = ''e-0'', source = ''2'', target = ''1'', edge_label = ''user_id'',
       edge_type = ''default'', animated = True\<rparr>]
   \<and> map edge_id (flowEdges shop_app_tables [user_id_relationship])
       \<noteq> map (\<lambda>i. ''e'' @ nat_to_string i) [0..<length [user_id_relationship]]
   \<and> flowEdges shop_app_tables [archive_relationship] = []"
  by (simp add: flowEdges_def flow_edge_def shop_app_tables_def user_id_relationship_def
      archive_relationship_def int_to_string_def nat_to_string.simps digit_char_def)

theorem C7_witness:
  "(0::nat) < length [user_id_relationship]
   \<and> initialEdges [user_id_relationship] =
       [\<lparr>edge_id = ''e0'', source = ''2'', target = ''1'', edge_label = ''user_id'',
         edge_type = ''smoothstep'', animated = True\<rparr>]
   \<and> (0::nat) < length (flowEdges shop_app_tables [archive_relationship, user_id_relationship])
   \<and> flowEdges shop_app_tables [archive_relationship, user_id_relationship] =
       [\<lparr>edge_id = ''e-0'', source = ''2'', target = ''1'', edge_label = ''user_id'',
         edge_type = ''default'', animated = True\<rparr>]"
proof -
  note c7 = C7_one_edge_per_relationship_per_builder
      [of "[user_id_relationship]" shop_app_tables]
  note c7f = C7_one_edge_per_relationship_per_builder
      [of "[archive_relationship, user_id_relationship]" shop_app_tables]
  have l: "(0::nat) < length [user_id_relationship]" by simp
  from c7 l
  have n: "initialEdges [user_id_relationship] ! 0 =
           \<lparr>edge_id = ''e'' @ nat_to_string 0,
            source = int_to_string (source_table_id ([user_id_relationship] ! 0)),
            target = int_to_string (target_table_id ([user_id_relationship] ! 0)),
            edge_label = field_name ([user_id_relationship] ! 0),
            edge_type = ''smoothstep'', animated = True\<rparr>"
    by blast
  from c7 have "length (initialEdges [user_id_relationship]) = 1" by simp
  then obtain e where e: "initialEdges [user_id_relationship] = [e]"
    by (cases "initialEdges [user_id_relationship]") auto
  with n have "e = \<lparr>edge_id = ''e0'', source = ''2'', target = ''1'', edge_label = ''user_id'',
         edge_type = ''smoothstep'', animated = True\<rparr>"
    by (simp add: user_id_relationship_def int_to_string_def nat_to_string.simps digit_char_def)
  with e have 1: "initialEdges [user_id_relationship] =
       [\<lparr>edge_id = ''e0'', source = ''2'', target = ''1'', edge_label = ''user_id'',
         edge_type = ''smoothstep'', animated = True\<rparr>]" by simp
  have kept: "filter (\<lambda>rel. source_table_id rel \<in> at_id ` set shop_app_tables
                            \<and> target_table_id rel \<in> at_id ` set shop_app_tables)
                [archive_relationship, user_id_relationship] = [user_id_relationship]"
    by (simp add: shop_app_tables_def archive_relationship_def user_id_relationship_def)
  from c7f have fl: "length (flowEdges shop_app_tables
                       [archive_relationship, user_id_relationship]) = 1"
    unfolding kept by simp
  then obtain f where f: "flowEdges shop_app_tables
                       [archive_relationship, user_id_relationship] = [f]"
    by (cases "flowEdges shop_app_tables [archive_relationship, user_id_relationship]") auto
  from fl have l2: "(0::nat) < length (flowEdges shop_app_tables
                       [archive_relationship, user_id_relationship])" by simp
  with c7f have "flowEdges shop_app_tables [archive_relationship, user_id_relationship] ! 0 =
           \<lparr>edge_id = ''e-'' @ nat_to_string 0,
            source = int_to_string (source_table_id
              (filter (\<lambda>rel. source_table_id rel \<in> at_id ` set shop_app_tables
                            \<and> target_table_id rel \<in> at_id ` set shop_app_tables)
                 [archive_relationship, user_id_relationship] ! 0)),
            target = int_to_string (target_table_id
              (filter (\<lambda>rel. source_table_id rel \<in> at_id ` set shop_app_tables
                            \<and> target_table_id rel \<in> at_id ` set shop_app_tables)
                 [archive_relationship, user_id_relationship] ! 0)),
            edge_label = field_name
              (filter (\<lambda>rel. source_table_id rel \<in> at_id ` set shop_app_tables
                            \<and> target_table_id rel \<in> at_id ` set shop_app_tables)
                 [archive_relationship, user_id_relationship] ! 0),
            edge_type = ''default'', animated = True\<rparr>"
    by blast
  then have "f = \<lparr>edge_id = ''e-0'', source = ''2'', target = ''1'', edge_label = ''user_id'',
         edge_type = ''default'', animated = True\<rparr>"
    unfolding kept f
    by (simp add: user_id_relationship_def int_to_string_def nat_to_string.simps digit_char_def)
  with f have 2: "flowEdges shop_app_tables [archive_relationship, user_id_relationship] =
       [\<lparr>edge_id = ''e-0'', source = ''2'', target = ''1'', edge_label = ''user_id'',
         edge_type = ''default'', animated = True\<rparr>]" by simp
  from l 1 l2 2 show ?thesis by blast
qed

lemma length_initialNodes: "length (initialNodes ts) = length ts"
  by (simp add: initialNodes_def)

lemma nth_initialNodes: "i < length ts \<Longrightarrow> initialNodes ts ! i = table_node i (ts ! i)"
  unfolding initialNodes_def by (rule nth_map_enumerate)

text \<open>
  C8. For every table of the derived graph and every field of that table, the node's
  field is marked as a primary-key indicator if and only if the lower-cased field name
  contains the substring "id" and equals the lower-cased text of the table's name
  followed by "_id".
\<close>

theorem C8_primary_key_indicator:
  "\<forall>i < length ts. \<forall>j < length (t_fields (ts ! i)).
     length (nd_fields (n_data (initialNodes ts ! i))) = length (t_fields (ts ! i))
     \<and> isPrimary (nd_fields (n_data (initialNodes ts ! i)) ! j)
        = ((\<exists>ps ss. toLowerCase (f_name (t_fields (ts ! i) ! j)) = ps @ ''id'' @ ss)
           \<and> toLowerCase (f_name (t_fields (ts ! i) ! j))
               = toLowerCase (t_name (ts ! i) @ ''_id''))"
  by (simp add: nth_initialNodes table_node_def classify_field_def is_primary_def
      str_includes_iff toLowerCase_append toLowerCase_suffix Let_def)

theorem C8_witness:
  "(1::nat) < length [users_table, orders_table]
   \<and> (1::nat) < length (t_fields ([users_table, orders_table] ! 1))
   \<and> f_name (t_fields ([users_table, orders_table] ! 1) ! 1) = ''Orders_ID''
   \<and> t_name ([users_table, orders_table] ! 1) = ''Orders''
   \<and> isPrimary (nd_fields (n_data (initialNodes [users_table, orders_table] ! 1)) ! 1)
   \<and> f_name (t_fields ([users_table, orders_table] ! 1) ! 0) = ''user_id''
   \<and> \<not> isPrimary (nd_fields (n_data (initialNodes [users_table, orders_table] ! 1)) ! 0)"
proof -
  let ?ts = "[users_table, orders_table]"
  have i: "(1::nat) < length ?ts" by simp
  have j1: "(1::nat) < length (t_fields (?ts ! 1))" by (simp add: orders_table_def)
  have j0: "(0::nat) < length (t_fields (?ts ! 1))" by (simp add: orders_table_def)
  have n1: "f_name (t_fields (?ts ! 1) ! 1) = ''Orders_ID''" by (simp add: orders_table_def)
  have n0: "f_name (t_fields (?ts ! 1) ! 0) = ''user_id''" by (simp add: orders_table_def)
  have tn: "t_name (?ts ! 1) = ''Orders''" by (simp add: orders_table_def)
  have low1: "toLowerCase ''Orders_ID'' = ''orders_id''"
    by code_simp
  have low0: "toLowerCase ''user_id'' = ''user_id''"
    by (simp add: toLowerCase_def lower_char_def)
  have lowt: "toLowerCase (''Orders'' @ ''_id'') = ''orders_id''"
    by code_simp
  have sub: "\<exists>ps ss. ''orders_id'' = ps @ ''id'' @ ss"
  proof -
    have "''orders_id'' = ''orders_'' @ ''id'' @ []" by simp
    then show ?thesis by blast
  qed
  from C8_primary_key_indicator [of ?ts] i j1
  have "isPrimary (nd_fields (n_data (initialNodes ?ts ! 1)) ! 1)
        = ((\<exists>ps ss. toLowerCase (f_name (t_fields (?ts ! 1) ! 1)) = ps @ ''id'' @ ss)
           \<and> toLowerCase (f_name (t_fields (?ts ! 1) ! 1))
               = toLowerCase (t_name (?ts ! 1) @ ''_id''))"
    by blast
  then have p1: "isPrimary (nd_fields (n_data (initialNodes ?ts ! 1)) ! 1)"
    using sub by (simp only: n1 tn low1 lowt)
  from C8_primary_key_indicator [of ?ts] i j0
  have "isPrimary (nd_fields (n_data (initialNodes ?ts ! 1)) ! 0)
        = ((\<exists>ps ss. toLowerCase (f_name (t_fields (?ts ! 1) ! 0)) = ps @ ''id'' @ ss)
           \<and> toLowerCase (f_name (t_fields (?ts ! 1) ! 0))
               = toLowerCase (t_name (?ts ! 1) @ ''_id''))"
    by blast
  then have p0: "\<not> isPrimary (nd_fields (n_data (initialNodes ?ts ! 1)) ! 0)"
    by (simp only: n0 tn low0 lowt) simp
  from i j1 n1 tn p1 n0 p0 show ?thesis by blast
qed




section \<open>Properties of the normaliser and of the filter derivations\<close>

lemma allDatabases_explicit:
  assumes "databases data = Some dbs" and "dbs \<noteq> []"
  shows "allDatabases lc (Some data) = map (database_from_payload data) dbs"
  using assms by (simp add: allDatabases_def)

text \<open>
  C3 (as amended). For every payload with an explicit non-empty database list,
  filteredDatabases with the workspace selection "all" returns one entry per listed
  database, in the payload's order, with that database's id and name. The entry's
  tableCount is the payload's table_count where the payload supplies one, and the count
  of the tables whose Number(database_id) is strictly equal to the database's id
  otherwise. databasesWithCorrectCounts, the list the database selector shows, has the
  same ids and names, and its tableCount is that count of tables in every case.
\<close>

theorem C3_explicit_database_list:
  assumes "databases data = Some dbs" and "dbs \<noteq> []" and "selectedWorkspace st = ''all''"
  shows "length (filteredDatabases lc (Some data) st) = length dbs
    \<and> map e_id (filteredDatabases lc (Some data) st) = map d_id dbs
    \<and> map e_name (filteredDatabases lc (Some data) st) = map d_name dbs
    \<and> map tableCount (filteredDatabases lc (Some data) st)
        = map (\<lambda>db. case table_count db of
                       Some c \<Rightarrow> c
                     | None \<Rightarrow> live_table_count (tables data) (d_id db)) dbs
    \<and> map e_id (databasesWithCorrectCounts lc (Some data) st) = map d_id dbs
    \<and> map e_name (databasesWithCorrectCounts lc (Some data) st) = map d_name dbs
    \<and> map tableCount (databasesWithCorrectCounts lc (Some data) st)
        = map (\<lambda>db. live_table_count (tables data) (d_id db)) dbs"
proof -
  have fd: "filteredDatabases lc (Some data) st = map (database_from_payload data) dbs"
    using assms by (simp add: filteredDatabases_def allDatabases_explicit)
  have a: "map e_id (map (database_from_payload data) dbs) = map d_id dbs"
    by (simp add: database_from_payload_def Let_def)
  have b: "map e_name (map (database_from_payload data) dbs) = map d_name dbs"
    by (simp add: database_from_payload_def Let_def)
  have c: "map tableCount (map (database_from_payload data) dbs)
        = map (\<lambda>db. case table_count db of
                       Some c \<Rightarrow> c
                     | None \<Rightarrow> live_table_count (tables data) (d_id db)) dbs"
    by (simp add: database_from_payload_def Let_def)
  have d: "map e_id (databasesWithCorrectCounts lc (Some data) st) = map d_id dbs"
    by (simp add: databasesWithCorrectCounts_def fd database_from_payload_def Let_def)
  have e: "map e_name (databasesWithCorrectCounts lc (Some data) st) = map d_name dbs"
    by (simp add: databasesWithCorrectCounts_def fd database_from_payload_def Let_def)
  have f: "map tableCount (databasesWithCorrectCounts lc (Some data) st)
        = map (\<lambda>db. live_table_count (tables data) (d_id db)) dbs"
    by (simp add: databasesWithCorrectCounts_def fd database_from_payload_def Let_def)
  from a b c d e f show ?thesis by (simp add: fd)
qed

lemma shop_live_count: "live_table_count (tables shop_payload) (d_id shop_database) = 2"
  by (simp add: live_table_count_def shop_payload_def shop_database_def users_table_def
      orders_table_def num_strict_eq_def)

text \<open>
  The claim as stated fails: with \<^verbatim>\<open>table_count: 7\<close> in the payload and two tables
  of that database, filteredDatabases reports 7, the payload's value, not 2.
\<close>

theorem C3_counterexample:
  "databases shop_payload = Some [shop_database]
   \<and> selectedWorkspace initial_state = ''all''
   \<and> map tableCount (filteredDatabases code_unit_compare (Some shop_payload) initial_state) = [7]
   \<and> map (\<lambda>db. live_table_count (tables shop_payload) (d_id db)) [shop_database] = [2]
   \<and> map tableCount (filteredDatabases code_unit_compare (Some shop_payload) initial_state)
       \<noteq> map (\<lambda>db. live_table_count (tables shop_payload) (d_id db)) [shop_database]"
  by (simp add: shop_live_count)
     (simp add: filteredDatabases_def allDatabases_def shop_payload_def initial_state_def
        database_from_payload_def shop_database_def)

theorem C3_witness:
  "databases shop_payload = Some [shop_database]
   \<and> selectedWorkspace initial_state = ''all''
   \<and> map e_name (filteredDatabases code_unit_compare (Some shop_payload) initial_state)
       = [''Shop'']
   \<and> map tableCount (filteredDatabases code_unit_compare (Some shop_payload) initial_state)
       = [7]
   \<and> map tableCount
        (databasesWithCorrectCounts code_unit_compare (Some shop_payload) initial_state) = [2]"
proof -
  have d: "databases shop_payload = Some [shop_database]" by (simp add: shop_payload_def)
  have n: "[shop_database] \<noteq> []" by simp
  have s: "selectedWorkspace initial_state = ''all''" by (simp add: initial_state_def)
  note c3 = C3_explicit_database_list [OF d n s, of code_unit_compare]
  from c3 have "map e_name (filteredDatabases code_unit_compare (Some shop_payload) initial_state)
       = map d_name [shop_database]" by blast
  then have 1: "map e_name (filteredDatabases code_unit_compare (Some shop_payload) initial_state)
       = [''Shop'']" by (simp add: shop_database_def)
  from c3 have "map tableCount (filteredDatabases code_unit_compare (Some shop_payload) initial_state)
        = map (\<lambda>db. case table_count db of
                       Some c \<Rightarrow> c
                     | None \<Rightarrow> live_table_count (tables shop_payload) (d_id db)) [shop_database]"
    by blast
  then have 2: "map tableCount (filteredDatabases code_unit_compare (Some shop_payload) initial_state)
       = [7]" by (simp add: shop_database_def)
  from c3 have "map tableCount
        (databasesWithCorrectCounts code_unit_compare (Some shop_payload) initial_state)
      = map (\<lambda>db. live_table_count (tables shop_payload) (d_id db)) [shop_database]"
    by blast
  then have 3: "map tableCount
        (databasesWithCorrectCounts code_unit_compare (Some shop_payload) initial_state) = [2]"
    by (simp add: shop_live_count)
  from d s 1 2 3 show ?thesis by blast
qed



lemma int_to_string_not_all: "int_to_string n \<noteq> ''all''"
proof
  assume e: "int_to_string n = ''all''"
  have nd: "\<not> is_digit CHR ''a''" by (simp add: is_digit_def)
  show False
  proof (cases "n < 0")
    case True
    with e show False by (simp add: int_to_string_def)
  next
    case False
    with e have "nat_to_string (nat n) = ''all''" by (simp add: int_to_string_def)
    then have "CHR ''a'' \<in> set (nat_to_string (nat n))" by simp
    then show False using nat_to_string_digits nd by blast
  qed
qed

lemma num_strict_eq_Num [simp]: "num_strict_eq a (Num n) = (a = Num n)"
  by (auto simp: num_strict_eq_def)

lemma strict_eq_JNumber_Num [simp]: "strict_eq v (JNumber (Num n)) = (v = JNumber (Num n))"
  by (cases v) auto

lemma int_to_string_10: "int_to_string 10 = ''10''"
  by (simp add: int_to_string_def nat_to_string.simps digit_char_def)

lemma StringToNumber_10: "StringToNumber ''10'' = Num 10"
  by (simp add: StringToNumber_def trim_def is_white_space_def unsigned_decimal_def
      is_digit_def digit_val_def)

lemma int_to_string_100: "int_to_string 100 = ''100''"
  by (simp add: int_to_string_def nat_to_string.simps digit_char_def)

subsection \<open>The derived database list\<close>

lemma length_insert_sorted: "length (insert_sorted lc key a xs) = Suc (length xs)"
  by (induction xs) auto

lemma set_insert_sorted: "set (insert_sorted lc key a xs) = insert a (set xs)"
  by (induction xs) auto

lemma length_sort_by_name: "length (sort_by_name lc key xs) = length xs"
  by (induction xs) (auto simp: sort_by_name_def length_insert_sorted)

lemma set_sort_by_name: "set (sort_by_name lc key xs) = set xs"
  by (induction xs) (auto simp: sort_by_name_def set_insert_sorted)

lemma distinct_set_add: "distinct s \<Longrightarrow> distinct (set_add s v)"
  by (simp add: set_add_def)

lemma set_set_add: "set (set_add s v) = insert v (set s)"
  by (auto simp: set_add_def)

lemma collect_ids_set:
  "set (foldl (\<lambda>s t. if P t then set_add s (g t) else s) acc ts)
     = set acc \<union> g ` {t \<in> set ts. P t}"
  by (induction ts arbitrary: acc) (auto simp: set_set_add)

lemma collect_ids_distinct:
  "distinct acc \<Longrightarrow> distinct (foldl (\<lambda>s t. if P t then set_add s (g t) else s) acc ts)"
  by (induction ts arbitrary: acc) (auto simp: distinct_set_add)

lemma uniqueDatabaseIds_set:
  "set (uniqueDatabaseIds ts) = js_Number ` database_id ` {t \<in> set ts. truthy (database_id t)}"
  unfolding uniqueDatabaseIds_def
  using collect_ids_set [of "\<lambda>t. truthy (database_id t)" "\<lambda>t. js_Number (database_id t)" "[]" ts]
  by (auto simp: image_iff)

lemma uniqueDatabaseIds_distinct: "distinct (uniqueDatabaseIds ts)"
  unfolding uniqueDatabaseIds_def by (rule collect_ids_distinct) simp

lemma length_derived_databases:
  "length (derived_databases lc data)
     = card (js_Number ` database_id ` {t \<in> set (tables data). truthy (database_id t)})"
proof (cases "tables data = []")
  case True
  then show ?thesis by (simp add: derived_databases_def)
next
  case False
  then have "length (derived_databases lc data) = length (uniqueDatabaseIds (tables data))"
    by (simp add: derived_databases_def length_sort_by_name)
  also have "\<dots> = card (set (uniqueDatabaseIds (tables data)))"
    using uniqueDatabaseIds_distinct by (simp add: distinct_card)
  finally show ?thesis by (simp add: uniqueDatabaseIds_set)
qed

lemma allDatabases_derived:
  assumes "databases data = None \<or> databases data = Some []"
  shows "allDatabases lc (Some data) = derived_databases lc data"
  using assms by (auto simp: allDatabases_def)

text \<open>The keys of the diagram component's database map.\<close>

lemma map_set_fresh: "\<not> map_has m k \<Longrightarrow> map_set m k v = m @ [(k, v)]"
  by (simp add: map_set_def)

lemma map_has_iff: "map_has m k \<longleftrightarrow> k \<in> set (map fst m)"
  by (simp add: map_has_def)

lemma keys_set: "set (foldl (\<lambda>s t. set_add s (g t)) acc ts) = set acc \<union> g ` set ts"
  by (induction ts arbitrary: acc) (auto simp: set_set_add)

lemma keys_distinct: "distinct acc \<Longrightarrow> distinct (foldl (\<lambda>s t. set_add s (g t)) acc ts)"
  by (induction ts arbitrary: acc) (auto simp: distinct_set_add)

lemma insert_if_absent_keys:
  "map fst (foldl (\<lambda>m t. if \<not> map_has m (g t) then map_set m (g t) (h t) else m) m0 ts)
     = foldl (\<lambda>s t. set_add s (g t)) (map fst m0) ts"
proof (induction ts arbitrary: m0)
  case Nil
  show ?case by simp
next
  case (Cons t ts)
  show ?case
  proof (cases "map_has m0 (g t)")
    case True
    then show ?thesis
      using Cons.IH [of m0] by (simp add: map_has_iff set_add_def)
  next
    case False
    then show ?thesis
      using Cons.IH [of "m0 @ [(g t, h t)]"]
      by (simp add: map_set_fresh) (simp add: map_has_iff set_add_def)
  qed
qed

lemma diagram_databases_keys:
  "length (diagram_databases lc ts)
     = length (foldl (\<lambda>s t. set_add s (js_Number (database_id t))) [] ts)"
proof -
  have "length (diagram_databases lc ts)
          = length (map fst (foldl (\<lambda>m t. if \<not> map_has m (js_Number (database_id t))
               then map_set m (js_Number (database_id t))
                  \<lparr>dd_id = js_Number (database_id t), dd_name = database_name t,
                   dd_workspace_id = js_Number (workspace_id t),
                   dd_tableCount = int (length (filter
                      (\<lambda>u. num_strict_eq (js_Number (database_id u)) (js_Number (database_id t)))
                      ts))\<rparr>
               else m) [] ts))"
    by (simp add: diagram_databases_def length_sort_by_name map_values_def Let_def)
  then show ?thesis
    by (simp only: insert_if_absent_keys) simp
qed

lemma length_diagram_databases:
  "length (diagram_databases lc ts) = card (js_Number ` database_id ` set ts)"
proof -
  let ?keys = "foldl (\<lambda>s t. set_add s (js_Number (database_id t))) [] ts"
  have "length (diagram_databases lc ts) = length ?keys"
    by (rule diagram_databases_keys)
  also have "\<dots> = card (set ?keys)"
    using keys_distinct [of "[]" "\<lambda>t. js_Number (database_id t)" ts]
    by (simp add: distinct_card)
  also have "\<dots> = card (js_Number ` database_id ` set ts)"
    by (simp add: keys_set image_image)
  finally show ?thesis .
qed

text \<open>
  C5 (as amended). For every payload without an explicit database list (absent or
  empty), the page's derived database list has one entry per distinct value of
  Number(database_id) among the tables whose database_id is truthy (not 0, not NaN, not
  the empty string); when every table's database_id is a non-zero number, that is the
  number of distinct database_id values. The diagram component's database list has one
  entry per distinct value of Number(database_id) over all tables.
\<close>

theorem C5_derived_database_count:
  assumes "databases data = None \<or> databases data = Some []"
  shows "length (allDatabases lc (Some data))
           = card (js_Number ` database_id ` {t \<in> set (tables data). truthy (database_id t)})
    \<and> ((\<forall>t \<in> set (tables data). \<exists>n. database_id t = JNumber (Num n) \<and> n \<noteq> 0)
         \<longrightarrow> length (allDatabases lc (Some data)) = card (database_id ` set (tables data)))
    \<and> length (diagram_databases lc (tables data))
           = card (js_Number ` database_id ` set (tables data))"
proof -
  have 1: "length (allDatabases lc (Some data))
           = card (js_Number ` database_id ` {t \<in> set (tables data). truthy (database_id t)})"
    using assms by (simp add: allDatabases_derived length_derived_databases)
  have 2: "length (allDatabases lc (Some data)) = card (database_id ` set (tables data))"
    if h: "\<forall>t \<in> set (tables data). \<exists>n. database_id t = JNumber (Num n) \<and> n \<noteq> 0"
  proof -
    from h have "{t \<in> set (tables data). truthy (database_id t)} = set (tables data)"
      by auto
    moreover have "inj_on js_Number (database_id ` set (tables data))"
    proof (rule inj_onI)
      fix a b
      assume "a \<in> database_id ` set (tables data)" "b \<in> database_id ` set (tables data)"
        and e: "js_Number a = js_Number b"
      then obtain x y where x: "x \<in> set (tables data)" "a = database_id x"
        and y: "y \<in> set (tables data)" "b = database_id y" by auto
      from h x obtain n where "a = JNumber (Num n)" by auto
      moreover from h y obtain m where "b = JNumber (Num m)" by auto
      ultimately show "a = b" using e by simp
    qed
    ultimately show ?thesis using 1 by (simp add: card_image)
  qed
  from 1 2 length_diagram_databases show ?thesis by blast
qed

text \<open>
  The claim as stated fails: a payload whose only table has database_id 0 has one
  distinct database_id and no derived database, because the guard
  \<^verbatim>\<open>if (table.database_id)\<close> skips the falsy identifier.
\<close>

theorem C5_counterexample:
  "databases unfiled_payload = None
   \<and> length (allDatabases code_unit_compare (Some unfiled_payload)) = 0
   \<and> card (database_id ` set (tables unfiled_payload)) = 1"
  by (simp add: unfiled_payload_def allDatabases_def derived_databases_def uniqueDatabaseIds_def
      unfiled_table_def sort_by_name_def)

theorem C5_witness:
  "databases scenario_payload = None
   \<and> length (allDatabases code_unit_compare (Some scenario_payload)) = 1
   \<and> card (database_id ` set (tables scenario_payload)) = 1
   \<and> length (diagram_databases code_unit_compare (tables scenario_payload)) = 1"
proof -
  have d: "databases scenario_payload = None \<or> databases scenario_payload = Some []"
    by (simp add: scenario_payload_def)
  have ids: "database_id ` set (tables scenario_payload) = {JNumber (Num 10)}"
    by (simp add: scenario_payload_def users_table_def orders_table_def)
  have nz: "\<forall>t \<in> set (tables scenario_payload). \<exists>n. database_id t = JNumber (Num n) \<and> n \<noteq> 0"
    by (simp add: scenario_payload_def users_table_def orders_table_def)
  note c5 = C5_derived_database_count [OF d, of code_unit_compare]
  from c5 nz have "length (allDatabases code_unit_compare (Some scenario_payload))
                     = card (database_id ` set (tables scenario_payload))"
    by blast
  then have 1: "length (allDatabases code_unit_compare (Some scenario_payload)) = 1"
    by (simp add: ids)
  from c5 have "length (diagram_databases code_unit_compare (tables scenario_payload))
           = card (js_Number ` database_id ` set (tables scenario_payload))"
    by blast
  then have 2: "length (diagram_databases code_unit_compare (tables scenario_payload)) = 1"
    by (simp add: ids)
  from 1 2 ids show ?thesis by (simp add: scenario_payload_def)
qed




subsection \<open>Where a derived entry takes its name from\<close>

lemma find_first_exists: "x \<in> set xs \<Longrightarrow> P x \<Longrightarrow> \<exists>y. find P xs = Some y"
  by (induction xs) auto

lemma find_Some_holds: "find P xs = Some y \<Longrightarrow> P y \<and> y \<in> set xs"
  by (induction xs) (auto split: if_splits)

lemma uniqueWorkspaceIds_set:
  "set (uniqueWorkspaceIds ts) = js_Number ` workspace_id ` {t \<in> set ts. truthy (workspace_id t)}"
  unfolding uniqueWorkspaceIds_def
  using collect_ids_set [of "\<lambda>t. truthy (workspace_id t)" "\<lambda>t. js_Number (workspace_id t)" "[]" ts]
  by (auto simp: image_iff)

lemma allWorkspaces_derived:
  assumes "workspaces data = None \<or> workspaces data = Some []"
  shows "allWorkspaces lc (Some data) = derived_workspaces lc data"
  using assms by (auto simp: allWorkspaces_def)

lemma derived_database_first_table:
  assumes "e \<in> set (derived_databases lc data)" and "e_id e = JNumber (Num n)"
  shows "\<exists>t. find (\<lambda>t. js_Number (database_id t) = Num n) (tables data) = Some t
             \<and> e_name e = (if database_name t = [] then ''Database '' @ int_to_string n
                            else database_name t)
             \<and> e_workspace_id e = JNumber (js_Number (workspace_id t))"
proof -
  from assms(1) obtain dbId where in_ids: "dbId \<in> set (uniqueDatabaseIds (tables data))"
    and e: "e = database_from_tables data dbId"
    by (auto simp: derived_databases_def set_sort_by_name split: if_splits)
  from e assms(2) have dbId: "dbId = Num n"
    by (simp add: database_from_tables_def Let_def)
  from in_ids dbId obtain u where "u \<in> set (tables data)" "js_Number (database_id u) = Num n"
    by (auto simp: uniqueDatabaseIds_set)
  then obtain t where t: "find (\<lambda>t. js_Number (database_id t) = Num n) (tables data) = Some t"
    using find_first_exists [of u "tables data" "\<lambda>t. js_Number (database_id t) = Num n"]
    by blast
  with e dbId show ?thesis
    by (simp add: database_from_tables_def Let_def str_or_def)
qed

lemma derived_workspace_first_table:
  assumes "e \<in> set (derived_workspaces lc data)" and "we_id e = JNumber (Num n)"
  shows "\<exists>t. find (\<lambda>t. js_Number (workspace_id t) = Num n) (tables data) = Some t
             \<and> we_name e = (if workspace_name t = [] then ''Workspace '' @ int_to_string n
                             else workspace_name t)"
proof -
  from assms(1) obtain wsId where in_ids: "wsId \<in> set (uniqueWorkspaceIds (tables data))"
    and e: "e = workspace_from_tables data wsId"
    by (auto simp: derived_workspaces_def set_sort_by_name split: if_splits)
  from e assms(2) have wsId: "wsId = Num n"
    by (simp add: workspace_from_tables_def Let_def)
  from in_ids wsId obtain u where "u \<in> set (tables data)" "js_Number (workspace_id u) = Num n"
    by (auto simp: uniqueWorkspaceIds_set)
  then obtain t where t: "find (\<lambda>t. js_Number (workspace_id t) = Num n) (tables data) = Some t"
    using find_first_exists [of u "tables data" "\<lambda>t. js_Number (workspace_id t) = Num n"]
    by blast
  with e wsId show ?thesis
    by (simp add: workspace_from_tables_def Let_def str_or_def)
qed

lemma insert_if_absent_values:
  assumes "(k, v) \<in> set (foldl (\<lambda>m t. if \<not> map_has m (g t) then map_set m (g t) (h t) else m)
                            m0 ts)"
  shows "(k, v) \<in> set m0
         \<or> (k \<notin> fst ` set m0 \<and> (\<exists>t. find (\<lambda>t. g t = k) ts = Some t \<and> v = h t))"
  using assms
proof (induction ts arbitrary: m0)
  case Nil
  then show ?case by simp
next
  case (Cons t ts)
  show ?case
  proof (cases "map_has m0 (g t)")
    case True
    with Cons.prems have "(k, v) \<in> set (foldl (\<lambda>m t. if \<not> map_has m (g t)
                              then map_set m (g t) (h t) else m) m0 ts)"
      by simp
    from Cons.IH [OF this] True show ?thesis
      by (auto simp: map_has_def)
  next
    case False
    with Cons.prems have "(k, v) \<in> set (foldl (\<lambda>m t. if \<not> map_has m (g t)
                              then map_set m (g t) (h t) else m) (m0 @ [(g t, h t)]) ts)"
      by (simp add: map_set_fresh)
    from Cons.IH [OF this] False show ?thesis
      by (auto simp: map_has_def)
  qed
qed

lemma map_set_member:
  assumes "(k, v) \<in> set (map_set m k' v')"
  shows "(k = k' \<and> v = v') \<or> (k \<noteq> k' \<and> (k, v) \<in> set m)"
  using assms by (force simp: map_set_def map_has_def split: if_splits)

lemma overwrite_values:
  assumes "(k, v) \<in> set (foldl (\<lambda>m t. map_set m (g t) (h t)) m0 ts)"
  shows "(\<exists>t. find (\<lambda>t. g t = k) (rev ts) = Some t \<and> v = h t)
         \<or> ((k, v) \<in> set m0 \<and> k \<notin> g ` set ts)"
  using assms
proof (induction ts rule: rev_induct)
  case Nil
  then show ?case by simp
next
  case (snoc t ts)
  from snoc.prems
  have "(k, v) \<in> set (map_set (foldl (\<lambda>m t. map_set m (g t) (h t)) m0 ts) (g t) (h t))"
    by simp
  then consider "k = g t" "v = h t"
    | "k \<noteq> g t" "(k, v) \<in> set (foldl (\<lambda>m t. map_set m (g t) (h t)) m0 ts)"
    using map_set_member by fastforce
  then show ?case
  proof cases
    case 1
    then show ?thesis by simp
  next
    case 2
    from snoc.IH [OF 2(2)] 2(1) show ?thesis by auto
  qed
qed

lemma diagram_database_first_table:
  assumes "e \<in> set (diagram_databases lc ts)"
  shows "\<exists>t. find (\<lambda>t. js_Number (database_id t) = dd_id e) ts = Some t
             \<and> dd_name e = database_name t
             \<and> dd_workspace_id e = js_Number (workspace_id t)"
proof -
  let ?h = "\<lambda>t. \<lparr>dd_id = js_Number (database_id t), dd_name = database_name t,
                   dd_workspace_id = js_Number (workspace_id t),
                   dd_tableCount = int (length (filter
                      (\<lambda>u. num_strict_eq (js_Number (database_id u)) (js_Number (database_id t)))
                      ts))\<rparr>"
  let ?m = "foldl (\<lambda>m t. if \<not> map_has m (js_Number (database_id t))
               then map_set m (js_Number (database_id t)) (?h t) else m) [] ts"
  from assms have "e \<in> set (map snd ?m)"
    by (simp add: diagram_databases_def set_sort_by_name map_values_def Let_def)
  then obtain k where "(k, e) \<in> set ?m" by auto
  from insert_if_absent_values [OF this]
  obtain t where f: "find (\<lambda>t. js_Number (database_id t) = k) ts = Some t" and e: "e = ?h t"
    by auto
  from f have "js_Number (database_id t) = k" using find_Some_holds by fastforce
  with f e show ?thesis by simp
qed

lemma diagram_workspace_last_table:
  assumes "w \<in> set (diagram_workspaces lc ts)"
  shows "\<exists>t. find (\<lambda>t. workspace_id t = w_id w) (rev ts) = Some t
             \<and> w_name w = workspace_name t"
proof -
  let ?h = "\<lambda>t. \<lparr>w_id = workspace_id t, w_name = workspace_name t\<rparr>"
  let ?m = "foldl (\<lambda>m t. map_set m (workspace_id t) (?h t)) [] ts"
  from assms have "w \<in> set (map snd ?m)"
    by (simp add: diagram_workspaces_def set_sort_by_name map_values_def)
  then obtain k where "(k, w) \<in> set ?m" by auto
  from overwrite_values [OF this]
  obtain t where f: "find (\<lambda>t. workspace_id t = k) (rev ts) = Some t" and w: "w = ?h t"
    by auto
  from f have "workspace_id t = k" using find_Some_holds by fastforce
  with f w show ?thesis by simp
qed

text \<open>
  C6 (as amended). For every payload without explicit database and workspace lists, each
  database and each workspace the page derives with a numeric identifier takes its name,
  and a database its workspace reference, from the first table of the tables sequence
  whose Number(database_id), respectively Number(workspace_id), is that identifier; an
  empty name gives way to "Database {id}", respectively "Workspace {id}". The diagram
  component's databases take name and workspace reference from the first such table as
  they are. The diagram component's workspaces take their name from the last table with
  that workspace_id, as it is.
\<close>

theorem C6_derived_names:
  assumes "databases data = None \<or> databases data = Some []"
    and "workspaces data = None \<or> workspaces data = Some []"
  shows "(\<forall>e \<in> set (allDatabases lc (Some data)). \<forall>n. e_id e = JNumber (Num n) \<longrightarrow>
            (\<exists>t. find (\<lambda>t. js_Number (database_id t) = Num n) (tables data) = Some t
               \<and> e_name e = (if database_name t = [] then ''Database '' @ int_to_string n
                              else database_name t)
               \<and> e_workspace_id e = JNumber (js_Number (workspace_id t))))
    \<and> (\<forall>e \<in> set (allWorkspaces lc (Some data)). \<forall>n. we_id e = JNumber (Num n) \<longrightarrow>
            (\<exists>t. find (\<lambda>t. js_Number (workspace_id t) = Num n) (tables data) = Some t
               \<and> we_name e = (if workspace_name t = [] then ''Workspace '' @ int_to_string n
                               else workspace_name t)))
    \<and> (\<forall>e \<in> set (diagram_databases lc (tables data)).
            \<exists>t. find (\<lambda>t. js_Number (database_id t) = dd_id e) (tables data) = Some t
               \<and> dd_name e = database_name t
               \<and> dd_workspace_id e = js_Number (workspace_id t))
    \<and> (\<forall>w \<in> set (diagram_workspaces lc (tables data)).
            \<exists>t. find (\<lambda>t. workspace_id t = w_id w) (rev (tables data)) = Some t
               \<and> w_name w = workspace_name t)"
  using assms derived_database_first_table derived_workspace_first_table
    diagram_database_first_table diagram_workspace_last_table
  by (simp add: allDatabases_derived allWorkspaces_derived)

lemma renamed_allDatabases:
  "allDatabases code_unit_compare (Some renamed_payload) =
     [\<lparr>e_id = JNumber (Num 30), e_name = ''CRM'', e_workspace_id = JNumber (Num 100),
       e_workspace_name = ''Old name'', tableCount = 2, hasTables = True\<rparr>]"
  by (simp add: allDatabases_def derived_databases_def renamed_payload_def
      uniqueDatabaseIds_def set_add_def database_from_tables_def sort_by_name_def
      old_name_table_def new_name_table_def str_or_def Let_def)

lemma renamed_allWorkspaces:
  "allWorkspaces code_unit_compare (Some renamed_payload) =
     [\<lparr>we_id = JNumber (Num 100), we_name = ''Old name'', databaseCount = 1,
       we_tableCount = 2\<rparr>]"
  by (simp add: allWorkspaces_def derived_workspaces_def renamed_payload_def
      uniqueWorkspaceIds_def set_add_def workspace_from_tables_def sort_by_name_def
      old_name_table_def new_name_table_def str_or_def Let_def)

lemma renamed_diagram_workspaces:
  "diagram_workspaces code_unit_compare (tables renamed_payload) =
     [\<lparr>w_id = JNumber (Num 100), w_name = ''New name''\<rparr>]"
  by (simp add: diagram_workspaces_def renamed_payload_def map_set_def map_has_def
      map_values_def sort_by_name_def old_name_table_def new_name_table_def)

text \<open>
  The claim as stated fails for the diagram component's workspace list: of two tables of
  workspace 100 the second one's workspace name is kept, and an empty workspace name
  stays empty.
\<close>

theorem C6_counterexample:
  "find (\<lambda>t. workspace_id t = JNumber (Num 100)) (tables renamed_payload) = Some old_name_table
   \<and> workspace_name old_name_table = ''Old name''
   \<and> diagram_workspaces code_unit_compare (tables renamed_payload)
       = [\<lparr>w_id = JNumber (Num 100), w_name = ''New name''\<rparr>]
   \<and> workspace_name users_table = []
   \<and> diagram_workspaces code_unit_compare [users_table]
       = [\<lparr>w_id = JNumber (Num 100), w_name = []\<rparr>]"
proof -
  have 1: "find (\<lambda>t. workspace_id t = JNumber (Num 100)) (tables renamed_payload)
             = Some old_name_table"
    by (simp add: renamed_payload_def old_name_table_def)
  have 2: "workspace_name old_name_table = ''Old name''" by (simp add: old_name_table_def)
  have 3: "workspace_name users_table = []" by (simp add: users_table_def)
  have 4: "diagram_workspaces code_unit_compare [users_table]
       = [\<lparr>w_id = JNumber (Num 100), w_name = []\<rparr>]"
    by (simp add: diagram_workspaces_def map_set_def map_has_def map_values_def
        sort_by_name_def users_table_def)
  from 1 2 3 4 renamed_diagram_workspaces show ?thesis by blast
qed

theorem C6_witness:
  "databases renamed_payload = None \<and> workspaces renamed_payload = None
   \<and> tables renamed_payload = [old_name_table, new_name_table]
   \<and> map e_name (allDatabases code_unit_compare (Some renamed_payload))
       = [database_name old_name_table]
   \<and> map we_name (allWorkspaces code_unit_compare (Some renamed_payload))
       = [workspace_name old_name_table]
   \<and> map w_name (diagram_workspaces code_unit_compare (tables renamed_payload))
       = [workspace_name new_name_table]"
proof -
  let ?E = "\<lparr>e_id = JNumber (Num 30), e_name = ''CRM'', e_workspace_id = JNumber (Num 100),
       e_workspace_name = ''Old name'', tableCount = 2, hasTables = True\<rparr>"
  let ?W = "\<lparr>we_id = JNumber (Num 100), we_name = ''Old name'', databaseCount = 1,
       we_tableCount = 2\<rparr>"
  let ?D = "\<lparr>w_id = JNumber (Num 100), w_name = ''New name''\<rparr>"
  have d: "databases renamed_payload = None \<or> databases renamed_payload = Some []"
    and w: "workspaces renamed_payload = None \<or> workspaces renamed_payload = Some []"
    and ts: "tables renamed_payload = [old_name_table, new_name_table]"
    by (simp_all add: renamed_payload_def)
  note c6 = C6_derived_names [OF d w, of code_unit_compare]
  have "?E \<in> set (allDatabases code_unit_compare (Some renamed_payload))"
    by (simp add: renamed_allDatabases)
  with c6 have "\<exists>t. find (\<lambda>t. js_Number (database_id t) = Num 30) (tables renamed_payload) = Some t
               \<and> e_name ?E = (if database_name t = [] then ''Database '' @ int_to_string 30
                              else database_name t)"
    by fastforce
  then have 1: "e_name ?E = database_name old_name_table"
    unfolding ts by (simp add: old_name_table_def)
  have "?W \<in> set (allWorkspaces code_unit_compare (Some renamed_payload))"
    by (simp add: renamed_allWorkspaces)
  with c6 have "\<exists>t. find (\<lambda>t. js_Number (workspace_id t) = Num 100) (tables renamed_payload) = Some t
               \<and> we_name ?W = (if workspace_name t = [] then ''Workspace '' @ int_to_string 100
                               else workspace_name t)"
    by fastforce
  then have 2: "we_name ?W = workspace_name old_name_table"
    unfolding ts by (simp add: old_name_table_def)
  have "?D \<in> set (diagram_workspaces code_unit_compare (tables renamed_payload))"
    by (simp add: renamed_diagram_workspaces)
  with c6 have "\<exists>t. find (\<lambda>t. workspace_id t = w_id ?D) (rev (tables renamed_payload)) = Some t
               \<and> w_name ?D = workspace_name t"
    by fastforce
  then have 3: "w_name ?D = workspace_name new_name_table"
    unfolding ts by (simp add: old_name_table_def new_name_table_def)
  from 1 2 3 show ?thesis
    by (simp add: renamed_allDatabases renamed_allWorkspaces renamed_diagram_workspaces)
       (simp add: renamed_payload_def)
qed




subsection \<open>Selecting a workspace without databases\<close>

lemma derive_no_tables: "derive [] rels st = ([], [])"
  by (simp add: derive_def diagram_filteredTables_def filter_by_workspace_def
      filter_by_database_def filteredRelationships_def initialNodes_def initialEdges_def
      Let_def)

lemma scenario_allDatabases:
  "allDatabases code_unit_compare (Some scenario_payload) =
     [\<lparr>e_id = JNumber (Num 10), e_name = ''Database 10'', e_workspace_id = JNumber (Num 100),
       e_workspace_name = ''Unknown Workspace'', tableCount = 2, hasTables = True\<rparr>]"
  by (simp add: allDatabases_def derived_databases_def scenario_payload_def
      uniqueDatabaseIds_def set_add_def database_from_tables_def sort_by_name_def
      users_table_def orders_table_def str_or_def Let_def int_to_string_10)

lemma StringToNumber_200: "StringToNumber ''200'' = Num 200"
  by (simp add: StringToNumber_def trim_def is_white_space_def unsigned_decimal_def
      is_digit_def digit_val_def)

lemma workspace_entry_table_count:
  assumes "w \<in> set (allWorkspaces lc (Some data))" and "we_id w = JNumber (Num n)"
  shows "we_tableCount w
           = int (length (filter (\<lambda>t. js_Number (workspace_id t) = Num n) (tables data)))"
proof -
  consider (derived) "w \<in> set (derived_workspaces lc data)"
    | (explicit) ws where "w = workspace_from_payload (allDatabases lc (Some data)) data ws"
    using assms(1) by (auto simp: allWorkspaces_def split: option.splits if_splits)
  then show ?thesis
  proof cases
    case derived
    then obtain wsId where "w = workspace_from_tables data wsId"
      by (auto simp: derived_workspaces_def set_sort_by_name split: if_splits)
    with assms(2) show ?thesis
      by (simp add: workspace_from_tables_def Let_def)
  next
    case explicit
    with assms(2) show ?thesis
      by (simp add: workspace_from_payload_def Let_def)
  qed
qed

text \<open>
  C9 (as amended). For every payload, let w be a workspace the selector offers, with a
  numeric identifier, to which no database of the list belongs (no entry's workspace_id
  is strictly equal to w's id). Choosing w's option makes filteredDatabases, and the
  list the database selector shows, empty. filteredTables then returns exactly the tables
  whose own Number(workspace_id) is w's id, as many as the selector's table count for w;
  it is empty when every table's workspace is the workspace of a listed database. Before
  the fetch (no payload) both derivations return the empty list, and the graph derivation
  over no tables returns no nodes and no edges for every relationship list. The source
  functions have no throwing branch on a payload of the declared interface.
\<close>

theorem C9_workspace_without_databases:
  assumes offered: "w \<in> set (allWorkspaces lc (Some data))"
    and numeric: "we_id w = JNumber (Num n)"
    and no_database:
      "\<forall>e \<in> set (allDatabases lc (Some data)). \<not> strict_eq (e_workspace_id e) (we_id w)"
  shows "jsval_toString (we_id w) \<in> set (workspace_options lc (Some data))
    \<and> filteredDatabases lc (Some data) (handleWorkspaceChange (jsval_toString (we_id w)) s) = []
    \<and> databasesWithCorrectCounts lc (Some data)
         (handleWorkspaceChange (jsval_toString (we_id w)) s) = []
    \<and> filteredTables (Some data) (handleWorkspaceChange (jsval_toString (we_id w)) s)
        = filter (\<lambda>t. js_Number (workspace_id t) = Num n) (tables data)
    \<and> int (length (filteredTables (Some data)
                     (handleWorkspaceChange (jsval_toString (we_id w)) s)))
        = we_tableCount w
    \<and> ((\<forall>t \<in> set (tables data). \<exists>e \<in> set (allDatabases lc (Some data)).
            strict_eq (e_workspace_id e) (JNumber (js_Number (workspace_id t))))
        \<longrightarrow> filteredTables (Some data)
              (handleWorkspaceChange (jsval_toString (we_id w)) s) = [])
    \<and> filteredDatabases lc None s = [] \<and> filteredTables None s = []
    \<and> derive [] rels s = ([], [])"
proof -
  let ?st = "handleWorkspaceChange (int_to_string n) s"
  have printed: "jsval_toString (we_id w) = int_to_string n"
    using numeric by simp
  have sel: "selectedWorkspace ?st = int_to_string n" "selectedDatabase ?st = ''all''"
    by (simp_all add: handleWorkspaceChange_def)
  have opt: "jsval_toString (we_id w) \<in> set (workspace_options lc (Some data))"
    using offered by (simp add: workspace_options_def)
  have "\<forall>e \<in> set (allDatabases lc (Some data)).
          \<not> strict_eq (e_workspace_id e) (JNumber (StringToNumber (int_to_string n)))"
    using no_database numeric by (simp add: StringToNumber_int_to_string)
  then have fd: "filteredDatabases lc (Some data) ?st = []"
    by (simp add: filteredDatabases_def sel int_to_string_not_all filter_empty_conv Let_def)
  have ft: "filteredTables (Some data) ?st
        = filter (\<lambda>t. js_Number (workspace_id t) = Num n) (tables data)"
    by (simp add: filteredTables_def sel filter_by_workspace_def filter_by_database_def
        int_to_string_not_all StringToNumber_int_to_string)
  have cnt: "int (length (filteredTables (Some data) ?st)) = we_tableCount w"
    using workspace_entry_table_count [OF offered numeric] by (simp add: ft)
  have cons: "filteredTables (Some data) ?st = []"
    if c: "\<forall>t \<in> set (tables data). \<exists>e \<in> set (allDatabases lc (Some data)).
            strict_eq (e_workspace_id e) (JNumber (js_Number (workspace_id t)))"
  proof -
    have "js_Number (workspace_id t) \<noteq> Num n" if t: "t \<in> set (tables data)" for t
    proof
      assume "js_Number (workspace_id t) = Num n"
      with c t obtain e where "e \<in> set (allDatabases lc (Some data))"
        and "strict_eq (e_workspace_id e) (JNumber (Num n))" by fastforce
      with no_database numeric show False by simp
    qed
    then show ?thesis by (simp add: ft filter_empty_conv)
  qed
  have none: "filteredDatabases lc None s = []" "filteredTables None s = []"
    by (simp_all add: filteredDatabases_def allDatabases_def filteredTables_def)
  from opt fd ft cnt cons none show ?thesis
    unfolding printed by (simp add: databasesWithCorrectCounts_def derive_no_tables)
qed

lemma empty_workspace_allDatabases:
  "allDatabases code_unit_compare (Some empty_workspace_payload) =
     [\<lparr>e_id = JNumber (Num 10), e_name = ''Shop'', e_workspace_id = JNumber (Num 100),
       e_workspace_name = ''Main'', tableCount = 7, hasTables = True\<rparr>]"
  by (simp add: allDatabases_def empty_workspace_payload_def database_from_payload_def
      shop_database_def)

lemma empty_workspace_allWorkspaces:
  "allWorkspaces code_unit_compare (Some empty_workspace_payload) =
     [\<lparr>we_id = JNumber (Num 100), we_name = ''Main'', databaseCount = 1, we_tableCount = 2\<rparr>,
      \<lparr>we_id = JNumber (Num 200), we_name = ''Empty'', databaseCount = 0, we_tableCount = 0\<rparr>]"
proof -
  have "allWorkspaces code_unit_compare (Some empty_workspace_payload) =
     map (workspace_from_payload (allDatabases code_unit_compare (Some empty_workspace_payload))
            empty_workspace_payload)
       [\<lparr>w_id = JNumber (Num 100), w_name = ''Main''\<rparr>,
        \<lparr>w_id = JNumber (Num 200), w_name = ''Empty''\<rparr>]"
    by (simp add: allWorkspaces_def empty_workspace_payload_def)
  then show ?thesis
    unfolding empty_workspace_allDatabases
    by (simp add: workspace_from_payload_def empty_workspace_payload_def users_table_def
        orders_table_def Let_def)
qed

theorem C9_witness:
  "workspace_options code_unit_compare (Some empty_workspace_payload) = [''all'', ''100'', ''200'']
   \<and> length (tables empty_workspace_payload) = 2
   \<and> length (allDatabases code_unit_compare (Some empty_workspace_payload)) = 1
   \<and> filteredDatabases code_unit_compare (Some empty_workspace_payload)
        (handleWorkspaceChange ''200'' initial_state) = []
   \<and> filteredTables (Some empty_workspace_payload)
        (handleWorkspaceChange ''200'' initial_state) = []
   \<and> derive (filteredTables (Some empty_workspace_payload)
                (handleWorkspaceChange ''200'' initial_state))
        (relationships empty_workspace_payload) initial_state = ([], [])"
proof -
  let ?w = "\<lparr>we_id = JNumber (Num 200), we_name = ''Empty'', databaseCount = 0,
             we_tableCount = 0\<rparr>"
  have offered: "?w \<in> set (allWorkspaces code_unit_compare (Some empty_workspace_payload))"
    by (simp add: empty_workspace_allWorkspaces)
  have numeric: "we_id ?w = JNumber (Num 200)" by simp
  have no_database:
    "\<forall>e \<in> set (allDatabases code_unit_compare (Some empty_workspace_payload)).
        \<not> strict_eq (e_workspace_id e) (we_id ?w)"
    by (simp add: empty_workspace_allDatabases)
  have p: "jsval_toString (we_id ?w) = ''200''"
    by (simp add: int_to_string_def nat_to_string.simps digit_char_def)
  note c9 = C9_workspace_without_databases [OF offered numeric no_database,
      of initial_state "relationships empty_workspace_payload"]
  from c9 have fd: "filteredDatabases code_unit_compare (Some empty_workspace_payload)
        (handleWorkspaceChange ''200'' initial_state) = []"
    unfolding p by blast
  from c9 have "int (length (filteredTables (Some empty_workspace_payload)
                     (handleWorkspaceChange ''200'' initial_state))) = we_tableCount ?w"
    unfolding p by blast
  then have ft: "filteredTables (Some empty_workspace_payload)
        (handleWorkspaceChange ''200'' initial_state) = []"
    by simp
  from c9 have dv: "derive [] (relationships empty_workspace_payload) initial_state = ([], [])"
    by blast
  have opts: "workspace_options code_unit_compare (Some empty_workspace_payload)
                = [''all'', ''100'', ''200'']"
    by (simp add: workspace_options_def empty_workspace_allWorkspaces int_to_string_def
        nat_to_string.simps digit_char_def)
  have l1: "length (tables empty_workspace_payload) = 2"
    by (simp add: empty_workspace_payload_def)
  have l2: "length (allDatabases code_unit_compare (Some empty_workspace_payload)) = 1"
    by (simp add: empty_workspace_allDatabases)
  from fd ft dv opts l1 l2 show ?thesis by simp
qed

lemma moved_allDatabases:
  "allDatabases code_unit_compare (Some moved_payload) =
     [\<lparr>e_id = JNumber (Num 10), e_name = ''Database 10'', e_workspace_id = JNumber (Num 100),
       e_workspace_name = ''Unknown Workspace'', tableCount = 2, hasTables = True\<rparr>]"
  by (simp add: allDatabases_def derived_databases_def moved_payload_def
      uniqueDatabaseIds_def set_add_def database_from_tables_def sort_by_name_def
      users_table_def moved_table_def str_or_def Let_def int_to_string_10)

lemma int_to_string_200: "int_to_string 200 = ''200''"
  by (simp add: int_to_string_def nat_to_string.simps digit_char_def)

lemma moved_allWorkspaces:
  "allWorkspaces code_unit_compare (Some moved_payload) =
     [\<lparr>we_id = JNumber (Num 100), we_name = ''Workspace 100'', databaseCount = 1,
       we_tableCount = 1\<rparr>,
      \<lparr>we_id = JNumber (Num 200), we_name = ''Workspace 200'', databaseCount = 1,
       we_tableCount = 1\<rparr>]"
  by (simp add: allWorkspaces_def derived_workspaces_def moved_payload_def
      uniqueWorkspaceIds_def set_add_def workspace_from_tables_def sort_by_name_def
      users_table_def moved_table_def str_or_def Let_def int_to_string_100 int_to_string_200)

text \<open>
  The claim as stated fails: in the payload below every table's database and workspace
  are entries of the derived lists, the selector offers workspace 200, no database of
  the list belongs to it, and filteredTables still returns the table that names it.
\<close>

theorem C9_counterexample:
  "workspace_options code_unit_compare (Some moved_payload) = [''all'', ''100'', ''200'']
   \<and> JNumber ` js_Number ` database_id ` set (tables moved_payload)
       \<subseteq> e_id ` set (allDatabases code_unit_compare (Some moved_payload))
   \<and> JNumber ` js_Number ` workspace_id ` set (tables moved_payload)
       \<subseteq> we_id ` set (allWorkspaces code_unit_compare (Some moved_payload))
   \<and> map e_workspace_id (allDatabases code_unit_compare (Some moved_payload))
       = [JNumber (Num 100)]
   \<and> filteredDatabases code_unit_compare (Some moved_payload)
        (handleWorkspaceChange ''200'' initial_state) = []
   \<and> filteredTables (Some moved_payload) (handleWorkspaceChange ''200'' initial_state)
       = [moved_table]
   \<and> filteredTables (Some moved_payload) (handleWorkspaceChange ''200'' initial_state) \<noteq> []"
proof -
  have sel: "selectedWorkspace (handleWorkspaceChange ''200'' initial_state) = ''200''"
     "selectedDatabase (handleWorkspaceChange ''200'' initial_state) = ''all''"
    by (simp_all add: handleWorkspaceChange_def)
  have ts: "tables moved_payload = [users_table, moved_table]"
    by (simp add: moved_payload_def)
  have 1: "workspace_options code_unit_compare (Some moved_payload) = [''all'', ''100'', ''200'']"
    by (simp add: workspace_options_def moved_allWorkspaces int_to_string_100 int_to_string_200)
  have 2: "JNumber ` js_Number ` database_id ` set (tables moved_payload)
       \<subseteq> e_id ` set (allDatabases code_unit_compare (Some moved_payload))"
    unfolding moved_allDatabases ts by (simp add: users_table_def moved_table_def)
  have 3: "JNumber ` js_Number ` workspace_id ` set (tables moved_payload)
       \<subseteq> we_id ` set (allWorkspaces code_unit_compare (Some moved_payload))"
    unfolding moved_allWorkspaces ts by (simp add: users_table_def moved_table_def)
  have 4: "map e_workspace_id (allDatabases code_unit_compare (Some moved_payload))
       = [JNumber (Num 100)]"
    by (simp add: moved_allDatabases)
  have 5: "filteredDatabases code_unit_compare (Some moved_payload)
        (handleWorkspaceChange ''200'' initial_state) = []"
    by (simp add: filteredDatabases_def moved_allDatabases sel StringToNumber_200)
  have 6: "filteredTables (Some moved_payload) (handleWorkspaceChange ''200'' initial_state)
       = [moved_table]"
    unfolding filteredTables_def sel
    by (simp add: filter_by_workspace_def filter_by_database_def
        StringToNumber_200 ts) (simp add: users_table_def moved_table_def)
  from 1 2 3 4 5 6 show ?thesis by simp
qed

subsection \<open>Selections are compared as numbers\<close>

lemma derived_databases_numeric:
  "e \<in> set (derived_databases lc data) \<Longrightarrow> \<exists>a. e_workspace_id e = JNumber a"
  by (auto simp: derived_databases_def set_sort_by_name database_from_tables_def Let_def
      split: if_splits)

lemma allDatabases_numeric:
  assumes "\<forall>dbs. databases data = Some dbs \<longrightarrow> (\<forall>d \<in> set dbs. \<exists>a. d_workspace_id d = JNumber a)"
    and "e \<in> set (allDatabases lc (Some data))"
  shows "\<exists>a. e_workspace_id e = JNumber a"
proof (cases "databases data")
  case None
  with assms(2) show ?thesis
    using derived_databases_numeric by (simp add: allDatabases_def)
next
  case (Some dbs)
  show ?thesis
  proof (cases "dbs = []")
    case True
    with Some assms(2) show ?thesis
      using derived_databases_numeric by (simp add: allDatabases_def)
  next
    case False
    with Some assms(2) obtain d where "d \<in> set dbs" and "e = database_from_payload data d"
      by (auto simp: allDatabases_def)
    with assms(1) Some show ?thesis
      by (auto simp: database_from_payload_def Let_def)
  qed
qed

lemma filter_by_workspace_eq:
  "filter_by_workspace sel xs
     = filter (\<lambda>t. sel = ''all''
                  \<or> num_strict_eq (js_Number (workspace_id t)) (js_Number (JString sel))) xs"
  by (simp add: filter_by_workspace_def Let_def)

lemma filter_by_database_eq:
  "filter_by_database sel xs
     = filter (\<lambda>t. sel = ''all''
                  \<or> num_strict_eq (js_Number (database_id t)) (js_Number (JString sel))) xs"
  by (simp add: filter_by_database_def Let_def)

text \<open>
  C4. For every payload whose database entries hold their workspace id as a number, as
  the payload's interface declares, and for every selection value, each comparison of
  the filter derivations is a strict comparison of two numbers: Number of the stored
  identifier against Number of the selection text. filteredTables (in the page and in
  the diagram component) keeps exactly the tables whose Number(workspace_id) and
  Number(database_id) equal Number of the respective selection, and filteredDatabases
  keeps exactly the entries whose Number(workspace_id) equals Number of the workspace
  selection; a selection of "all" keeps everything. In particular a selection that is
  the decimal text of an integer n matches exactly the entities whose identifier is n.
\<close>

theorem C4_comparisons_on_numbers:
  assumes typed:
    "\<forall>dbs. databases data = Some dbs \<longrightarrow> (\<forall>d \<in> set dbs. \<exists>a. d_workspace_id d = JNumber a)"
  shows "filteredTables (Some data) st
      = filter (\<lambda>t. (selectedWorkspace st = ''all''
                      \<or> num_strict_eq (js_Number (workspace_id t))
                           (js_Number (JString (selectedWorkspace st))))
                   \<and> (selectedDatabase st = ''all''
                      \<or> num_strict_eq (js_Number (database_id t))
                           (js_Number (JString (selectedDatabase st))))) (tables data)
    \<and> diagram_filteredTables ts st
      = filter (\<lambda>t. (selectedWorkspace st = ''all''
                      \<or> num_strict_eq (js_Number (workspace_id t))
                           (js_Number (JString (selectedWorkspace st))))
                   \<and> (selectedDatabase st = ''all''
                      \<or> num_strict_eq (js_Number (database_id t))
                           (js_Number (JString (selectedDatabase st))))) ts
    \<and> filteredDatabases lc (Some data) st
      = filter (\<lambda>e. selectedWorkspace st = ''all''
                     \<or> num_strict_eq (js_Number (e_workspace_id e))
                          (js_Number (JString (selectedWorkspace st))))
          (allDatabases lc (Some data))
    \<and> diagram_filteredDatabases dbs st
      = filter (\<lambda>db. selectedWorkspace st = ''all''
                     \<or> num_strict_eq (dd_workspace_id db)
                          (js_Number (JString (selectedWorkspace st)))) dbs
    \<and> filteredTables (Some data)
        \<lparr>selectedWorkspace = int_to_string n, selectedDatabase = int_to_string m\<rparr>
      = filter (\<lambda>t. js_Number (workspace_id t) = Num n \<and> js_Number (database_id t) = Num m)
          (tables data)
    \<and> filteredTables (Some data) \<lparr>selectedWorkspace = int_to_string n, selectedDatabase = ''all''\<rparr>
      = filter (\<lambda>t. js_Number (workspace_id t) = Num n) (tables data)
    \<and> filteredDatabases lc (Some data) \<lparr>selectedWorkspace = int_to_string n, selectedDatabase = d\<rparr>
      = filter (\<lambda>e. js_Number (e_workspace_id e) = Num n) (allDatabases lc (Some data))"
proof -
  have ft: "filteredTables (Some data) st
      = filter (\<lambda>t. (selectedWorkspace st = ''all''
                      \<or> num_strict_eq (js_Number (workspace_id t))
                           (js_Number (JString (selectedWorkspace st))))
                   \<and> (selectedDatabase st = ''all''
                      \<or> num_strict_eq (js_Number (database_id t))
                           (js_Number (JString (selectedDatabase st))))) (tables data)" for st
    by (simp add: filteredTables_def filter_by_workspace_eq filter_by_database_eq)
  have dft: "diagram_filteredTables ts st
      = filter (\<lambda>t. (selectedWorkspace st = ''all''
                      \<or> num_strict_eq (js_Number (workspace_id t))
                           (js_Number (JString (selectedWorkspace st))))
                   \<and> (selectedDatabase st = ''all''
                      \<or> num_strict_eq (js_Number (database_id t))
                           (js_Number (JString (selectedDatabase st))))) ts"
    by (simp add: diagram_filteredTables_def filter_by_workspace_eq filter_by_database_eq)
  have stored: "strict_eq (e_workspace_id e) (JNumber x)
                  = num_strict_eq (js_Number (e_workspace_id e)) x"
    if "e \<in> set (allDatabases lc (Some data))" for e x
  proof -
    from allDatabases_numeric [OF typed that] obtain a where "e_workspace_id e = JNumber a"
      by blast
    then show ?thesis by simp
  qed
  have fd: "filteredDatabases lc (Some data) st
      = filter (\<lambda>e. selectedWorkspace st = ''all''
                     \<or> num_strict_eq (js_Number (e_workspace_id e))
                          (js_Number (JString (selectedWorkspace st))))
          (allDatabases lc (Some data))" for st
  proof (cases "selectedWorkspace st = ''all''")
    case True
    then show ?thesis by (simp add: filteredDatabases_def)
  next
    case False
    have "filter (\<lambda>db. strict_eq (e_workspace_id db)
                         (JNumber (StringToNumber (selectedWorkspace st))))
            (allDatabases lc (Some data))
          = filter (\<lambda>e. num_strict_eq (js_Number (e_workspace_id e))
                          (StringToNumber (selectedWorkspace st)))
            (allDatabases lc (Some data))"
      by (rule filter_cong) (simp_all add: stored)
    with False show ?thesis by (simp add: filteredDatabases_def Let_def)
  qed
  have dfd: "diagram_filteredDatabases dbs st
      = filter (\<lambda>db. selectedWorkspace st = ''all''
                     \<or> num_strict_eq (dd_workspace_id db)
                          (js_Number (JString (selectedWorkspace st)))) dbs"
    by (simp add: diagram_filteredDatabases_def)
  have r1: "filteredTables (Some data)
        \<lparr>selectedWorkspace = int_to_string n, selectedDatabase = int_to_string m\<rparr>
      = filter (\<lambda>t. js_Number (workspace_id t) = Num n \<and> js_Number (database_id t) = Num m)
          (tables data)"
    by (simp add: ft int_to_string_not_all StringToNumber_int_to_string)
  have r2: "filteredTables (Some data)
        \<lparr>selectedWorkspace = int_to_string n, selectedDatabase = ''all''\<rparr>
      = filter (\<lambda>t. js_Number (workspace_id t) = Num n) (tables data)"
    by (simp add: ft int_to_string_not_all StringToNumber_int_to_string)
  have r3: "filteredDatabases lc (Some data)
        \<lparr>selectedWorkspace = int_to_string n, selectedDatabase = d\<rparr>
      = filter (\<lambda>e. js_Number (e_workspace_id e) = Num n) (allDatabases lc (Some data))"
    by (simp add: fd int_to_string_not_all StringToNumber_int_to_string)
  from ft dft fd dfd r1 r2 r3 show ?thesis by blast
qed

lemma mixed_allDatabases:
  "allDatabases code_unit_compare (Some mixed_payload) =
     [\<lparr>e_id = JNumber (Num 10), e_name = ''Shop'', e_workspace_id = JNumber (Num 100),
       e_workspace_name = ''Main'', tableCount = 7, hasTables = True\<rparr>]"
  by (simp add: allDatabases_def mixed_payload_def database_from_payload_def shop_database_def)

theorem C4_witness:
  "databases mixed_payload = Some [shop_database]
   \<and> d_workspace_id shop_database = JNumber (Num 100)
   \<and> workspace_id invoices_table = JString ''100''
   \<and> filteredTables (Some mixed_payload)
        \<lparr>selectedWorkspace = ''100'', selectedDatabase = ''10''\<rparr>
      = [users_table, invoices_table]
   \<and> filteredTables (Some mixed_payload)
        \<lparr>selectedWorkspace = ''100'', selectedDatabase = ''all''\<rparr>
      = [users_table, invoices_table]
   \<and> filteredDatabases code_unit_compare (Some mixed_payload)
        \<lparr>selectedWorkspace = ''100'', selectedDatabase = ''all''\<rparr>
      = allDatabases code_unit_compare (Some mixed_payload)
   \<and> length (allDatabases code_unit_compare (Some mixed_payload)) = 1
   \<and> filteredDatabases code_unit_compare (Some mixed_payload)
        \<lparr>selectedWorkspace = '' 100'', selectedDatabase = ''all''\<rparr>
      = allDatabases code_unit_compare (Some mixed_payload)
   \<and> filteredDatabases code_unit_compare (Some mixed_payload)
        \<lparr>selectedWorkspace = ''200'', selectedDatabase = ''all''\<rparr> = []"
proof -
  have db: "databases mixed_payload = Some [shop_database]"
    by (simp add: mixed_payload_def)
  have typed: "\<forall>dbs. databases mixed_payload = Some dbs
                 \<longrightarrow> (\<forall>d \<in> set dbs. \<exists>a. d_workspace_id d = JNumber a)"
    by (simp add: db) (simp add: shop_database_def)
  have ts: "tables mixed_payload = [users_table, invoices_table, archive_table]"
    by (simp add: mixed_payload_def)
  note c4 = C4_comparisons_on_numbers [OF typed, of _ "[]" code_unit_compare "[]" 100 10 "''all''"]
  from c4 have "filteredTables (Some mixed_payload)
        \<lparr>selectedWorkspace = int_to_string 100, selectedDatabase = int_to_string 10\<rparr>
      = filter (\<lambda>t. js_Number (workspace_id t) = Num 100 \<and> js_Number (database_id t) = Num 10)
          (tables mixed_payload)"
    by blast
  then have 1: "filteredTables (Some mixed_payload)
        \<lparr>selectedWorkspace = ''100'', selectedDatabase = ''10''\<rparr>
      = [users_table, invoices_table]"
    unfolding int_to_string_100 int_to_string_10 ts
    by (simp add: users_table_def invoices_table_def archive_table_def StringToNumber_100
        StringToNumber_10)
  from c4 have "filteredTables (Some mixed_payload)
        \<lparr>selectedWorkspace = int_to_string 100, selectedDatabase = ''all''\<rparr>
      = filter (\<lambda>t. js_Number (workspace_id t) = Num 100) (tables mixed_payload)"
    by blast
  then have 2: "filteredTables (Some mixed_payload)
        \<lparr>selectedWorkspace = ''100'', selectedDatabase = ''all''\<rparr>
      = [users_table, invoices_table]"
    unfolding int_to_string_100 ts
    by (simp add: users_table_def invoices_table_def archive_table_def StringToNumber_100)
  from c4 have "filteredDatabases code_unit_compare (Some mixed_payload)
        \<lparr>selectedWorkspace = int_to_string 100, selectedDatabase = ''all''\<rparr>
      = filter (\<lambda>e. js_Number (e_workspace_id e) = Num 100)
          (allDatabases code_unit_compare (Some mixed_payload))"
    by blast
  then have 3: "filteredDatabases code_unit_compare (Some mixed_payload)
        \<lparr>selectedWorkspace = ''100'', selectedDatabase = ''all''\<rparr>
      = allDatabases code_unit_compare (Some mixed_payload)"
    unfolding int_to_string_100 by (simp add: mixed_allDatabases)
  have sp: "StringToNumber '' 100'' = Num 100"
    by (simp add: StringToNumber_def trim_def is_white_space_def unsigned_decimal_def
        is_digit_def digit_val_def)
  from C4_comparisons_on_numbers [OF typed, of
      "\<lparr>selectedWorkspace = '' 100'', selectedDatabase = ''all''\<rparr>" "[]" code_unit_compare]
  have "filteredDatabases code_unit_compare (Some mixed_payload)
          \<lparr>selectedWorkspace = '' 100'', selectedDatabase = ''all''\<rparr>
      = filter (\<lambda>e. selectedWorkspace \<lparr>selectedWorkspace = '' 100'', selectedDatabase = ''all''\<rparr>
                       = ''all''
                     \<or> num_strict_eq (js_Number (e_workspace_id e))
                          (js_Number (JString (selectedWorkspace
                             \<lparr>selectedWorkspace = '' 100'', selectedDatabase = ''all''\<rparr>))))
          (allDatabases code_unit_compare (Some mixed_payload))"
    by blast
  then have 4: "filteredDatabases code_unit_compare (Some mixed_payload)
        \<lparr>selectedWorkspace = '' 100'', selectedDatabase = ''all''\<rparr>
      = allDatabases code_unit_compare (Some mixed_payload)"
    by (simp add: mixed_allDatabases sp)
  from C4_comparisons_on_numbers [OF typed, of
      "\<lparr>selectedWorkspace = ''200'', selectedDatabase = ''all''\<rparr>" "[]" code_unit_compare]
  have "filteredDatabases code_unit_compare (Some mixed_payload)
          \<lparr>selectedWorkspace = ''200'', selectedDatabase = ''all''\<rparr>
      = filter (\<lambda>e. selectedWorkspace \<lparr>selectedWorkspace = ''200'', selectedDatabase = ''all''\<rparr>
                       = ''all''
                     \<or> num_strict_eq (js_Number (e_workspace_id e))
                          (js_Number (JString (selectedWorkspace
                             \<lparr>selectedWorkspace = ''200'', selectedDatabase = ''all''\<rparr>))))
          (allDatabases code_unit_compare (Some mixed_payload))"
    by blast
  then have 5: "filteredDatabases code_unit_compare (Some mixed_payload)
        \<lparr>selectedWorkspace = ''200'', selectedDatabase = ''all''\<rparr> = []"
    by (simp add: mixed_allDatabases StringToNumber_200)
  have 6: "length (allDatabases code_unit_compare (Some mixed_payload)) = 1"
    by (simp add: mixed_allDatabases)
  have 7: "d_workspace_id shop_database = JNumber (Num 100)" by (simp add: shop_database_def)
  have 8: "workspace_id invoices_table = JString ''100''" by (simp add: invoices_table_def)
  from db 1 2 3 4 5 6 7 8 show ?thesis by blast
qed

text \<open>
  The hypothesis states the declared type of the stored identifier. filteredDatabases
  passes the selection through Number and compares the entry's workspace id as it is
  stored, so an entry whose workspace id arrives as JSON text, outside the declared
  type, is not returned under the selection that reads as the same number.
\<close>

lemma text_workspace_id_in_database_list:
  "d_workspace_id text_id_database = JString ''100''
   \<and> js_Number (d_workspace_id text_id_database) = StringToNumber ''100''
   \<and> filteredDatabases code_unit_compare (Some text_id_payload)
        \<lparr>selectedWorkspace = ''100'', selectedDatabase = ''all''\<rparr> = []"
proof -
  have all: "allDatabases code_unit_compare (Some text_id_payload) =
     [\<lparr>e_id = JNumber (Num 10), e_name = ''Shop'', e_workspace_id = JString ''100'',
       e_workspace_name = ''Main'', tableCount = 2, hasTables = True\<rparr>]"
    by (simp add: allDatabases_def text_id_payload_def database_from_payload_def
        text_id_database_def live_table_count_def users_table_def orders_table_def)
  have "filteredDatabases code_unit_compare (Some text_id_payload)
        \<lparr>selectedWorkspace = ''100'', selectedDatabase = ''all''\<rparr> = []"
    by (simp add: filteredDatabases_def all StringToNumber_100)
  then show ?thesis by (simp add: text_id_database_def)
qed

section \<open>The page and the diagram together\<close>

text \<open>
  The page hands its filtered tables and all relationships to the diagram component with
  the component's own filter panel hidden (\<^verbatim>\<open>hideFilters={true}\<close>), so the
  component's selection stays at its initial value: the diagram shows the page's filtered
  tables and the relationships between them.
\<close>

lemma diagram_filteredTables_initial: "diagram_filteredTables ts initial_state = ts"
  by (simp add: diagram_filteredTables_def filter_by_workspace_def filter_by_database_def
      initial_state_def)

lemma page_passes_filtered_tables:
  "derive (filteredTables erdData st) rels initial_state =
     (initialNodes (filteredTables erdData st),
      initialEdges (filter (\<lambda>rel. source_table_id rel \<in> t_id ` set (filteredTables erdData st)
                               \<and> target_table_id rel \<in> t_id ` set (filteredTables erdData st))
                      rels))"
  by (simp add: derive_def diagram_filteredTables_initial filteredRelationships_def
      set_foldl_set_add)

text \<open>
  The scenario of the specification, evaluated: one derived database (10, "Database 10"),
  one derived workspace (100, "Workspace 100"), both tables and the single relationship
  pass the initial selection, and the graph has one edge labelled "user_id" from node "2"
  to node "1".
\<close>

lemma scenario_of_the_specification:
  "map (\<lambda>e. (e_id e, e_name e)) (allDatabases code_unit_compare (Some scenario_payload))
     = [(JNumber (Num 10), ''Database 10'')]
   \<and> map (\<lambda>e. (we_id e, we_name e)) (allWorkspaces code_unit_compare (Some scenario_payload))
     = [(JNumber (Num 100), ''Workspace 100'')]
   \<and> filteredTables (Some scenario_payload) initial_state = [users_table, orders_table]
   \<and> filteredRelationships (relationships scenario_payload)
        (filteredTables (Some scenario_payload) initial_state) initial_state
     = [user_id_relationship]
   \<and> snd (derive (filteredTables (Some scenario_payload) initial_state)
             (relationships scenario_payload) initial_state)
     = [\<lparr>edge_id = ''e0'', source = ''2'', target = ''1'', edge_label = ''user_id'',
         edge_type = ''smoothstep'', animated = True\<rparr>]
   \<and> map n_id (fst (derive (filteredTables (Some scenario_payload) initial_state)
             (relationships scenario_payload) initial_state)) = [''1'', ''2'']"
proof -
  have ft: "filteredTables (Some scenario_payload) initial_state = [users_table, orders_table]"
    by (simp add: filteredTables_def filter_by_workspace_def filter_by_database_def
        initial_state_def scenario_payload_def)
  have ws: "allWorkspaces code_unit_compare (Some scenario_payload) =
     [\<lparr>we_id = JNumber (Num 100), we_name = ''Workspace 100'', databaseCount = 1,
       we_tableCount = 2\<rparr>]"
    by (simp add: allWorkspaces_def derived_workspaces_def scenario_payload_def
      uniqueWorkspaceIds_def set_add_def workspace_from_tables_def sort_by_name_def
      users_table_def orders_table_def str_or_def Let_def int_to_string_100)
  have fr: "filteredRelationships (relationships scenario_payload) [users_table, orders_table]
              initial_state = [user_id_relationship]"
    by (simp add: filteredRelationships_def diagram_filteredTables_initial set_add_def
        scenario_payload_def users_table_def orders_table_def user_id_relationship_def)
  have ed: "initialEdges [user_id_relationship] =
      [\<lparr>edge_id = ''e0'', source = ''2'', target = ''1'', edge_label = ''user_id'',
         edge_type = ''smoothstep'', animated = True\<rparr>]"
    by (simp add: initialEdges_def relationship_edge_def user_id_relationship_def
        int_to_string_def nat_to_string.simps digit_char_def)
  have nd: "map n_id (initialNodes [users_table, orders_table]) = [''1'', ''2'']"
    by (simp add: initialNodes_def table_node_def users_table_def orders_table_def
        int_to_string_def nat_to_string.simps digit_char_def Let_def)
  show ?thesis
    by (simp add: scenario_allDatabases ws ft fr ed nd derive_def diagram_filteredTables_initial)
qed


end
